theory Spec2Isabelle
  imports Complex_Main
begin

section \<open>Data model\<close>

text \<open>
  The program is Python; its numbers are floats, that is IEEE binary64 doubles. A double
  is modelled by the real number it denotes. In the segment planner, the verified move
  and the sweeps every operation of the source is the operation on doubles: the exact
  result, rounded (section Doubles). In \<^verbatim>\<open>move_cal\<close> and in the random walks the sums,
  quotients and comparisons of the source are taken exactly. Telemetry
  (\<^verbatim>\<open>get_position_data\<close>) returns the list \<^verbatim>\<open>[t, x, y, z]\<close>, modelled as a 4-tuple.
  Console output with formatted numbers, the CSV rows written when \<^verbatim>\<open>write_datafile\<close> is set
  and the calls of \<^verbatim>\<open>time.sleep\<close> do not influence any command or field and are left out.
\<close>

type_synonym position = "real \<times> real \<times> real \<times> real"

datatype py_error = ZeroDivisionError | IndexError

text \<open>What reaches the vehicle and the console.\<close>

datatype event =
    Print string
  | Set_throttle real
  | Set_roll real
  | Set_pitch real
  | Hover real
  | Move real
  | Send_absolute_position real real real real

text \<open>The fields of class \<^verbatim>\<open>DroneCalibrated\<close> (the vehicle and the writer are external).\<close>

record drone_calibrated =
  paired :: bool
  takeoff :: bool
  calibrated :: bool
  pitch_f :: real
  pitch_b :: real
  roll_r :: real
  roll_l :: real
  throttle_u :: real
  throttle_d :: real
  yaw_cw :: real
  yaw_ccw :: real
  write_datafile :: bool
  dwell :: real

definition init :: "bool \<Rightarrow> drone_calibrated" where
  "init wd = \<lparr> paired = False, takeoff = False, calibrated = False,
     pitch_f = 1, pitch_b = 1, roll_r = 1, roll_l = 1, throttle_u = 1, throttle_d = 1,
     yaw_cw = 1, yaw_ccw = 1, write_datafile = wd, dwell = 5 \<rparr>"

definition get_drone_cal :: "drone_calibrated \<Rightarrow> real list" where
  "get_drone_cal s = [pitch_f s, pitch_b s, roll_r s, roll_l s,
     throttle_u s, throttle_d s, yaw_cw s, yaw_ccw s]"

section \<open>Doubles\<close>

text \<open>
  Rounding to the nearest integer, a tie going to the even one: Python's \<^verbatim>\<open>round(x)\<close>
  of a float, and the rule by which a double operation rounds its exact result.
\<close>

definition py_round :: "real \<Rightarrow> int" where
  "py_round x =
    (let f = \<lfloor>x\<rfloor>; d = x - of_int f
     in if d < 1 / 2 then f else if 1 / 2 < d then f + 1 else if even f then f else f + 1)"

text \<open>
  The exponent of a double: \<open>e\<close> with \<open>2^e \<le> |x| < 2^(e+1)\<close>, found by halving (from 1
  upwards, at most 1023 times) or doubling (below 1, at most 1022 times, which is where
  the subnormal numbers begin).
\<close>

fun halvings :: "nat \<Rightarrow> real \<Rightarrow> int" where
  "halvings 0 x = 0"
| "halvings (Suc n) x = (if x < 2 then 0 else 1 + halvings n (x / 2))"

fun doublings :: "nat \<Rightarrow> real \<Rightarrow> int" where
  "doublings 0 x = 0"
| "doublings (Suc n) x = (if 1 \<le> x then 0 else doublings n (2 * x) - 1)"

definition exponent :: "real \<Rightarrow> int" where
  "exponent x = (if 1 \<le> \<bar>x\<bar> then halvings 1023 \<bar>x\<bar> else doublings 1022 \<bar>x\<bar>)"

text \<open>
  \<open>fl x\<close> is the double nearest to \<open>x\<close>: \<open>x\<close> rounded to a multiple of the unit in the last
  of the 53 bits, ties to even. A decimal literal of the source denotes \<open>fl\<close> of its value
  (\<^verbatim>\<open>0.05\<close> is \<open>fl (5 / 100)\<close>). Results beyond the largest double, Python's \<^verbatim>\<open>inf\<close>, and
  \<^verbatim>\<open>nan\<close> are outside the model.
\<close>

definition fl :: "real \<Rightarrow> real" where
  "fl x = (let u = 2 powi (exponent x - 52) in of_int (py_round (x / u)) * u)"

definition fadd :: "real \<Rightarrow> real \<Rightarrow> real" where
  "fadd a b = fl (a + b)"

definition fsub :: "real \<Rightarrow> real \<Rightarrow> real" where
  "fsub a b = fl (a - b)"

definition fmul :: "real \<Rightarrow> real \<Rightarrow> real" where
  "fmul a b = fl (a * b)"

text \<open>Division raises on a zero divisor; \<^verbatim>\<open>math.sqrt\<close> rounds the exact root.\<close>

definition fdiv :: "real \<Rightarrow> real \<Rightarrow> py_error + real" where
  "fdiv a b = (if b = 0 then Inl ZeroDivisionError else Inr (fl (a / b)))"

definition fsqrt :: "real \<Rightarrow> real" where
  "fsqrt a = fl (sqrt a)"

section \<open>Setting the calibration profile\<close>

text \<open>Python's \<^verbatim>\<open>xs[i]\<close> for a constant index \<open>i \<ge> 0\<close>: out of range raises IndexError.\<close>

definition index :: "real list \<Rightarrow> nat \<Rightarrow> py_error + real" where
  "index xs i = (if i < length xs then Inr (xs ! i) else Inl IndexError)"

text \<open>
  \<^verbatim>\<open>set_drone_cal\<close> assigns the fields one after the other; an IndexError leaves the
  assignments made before it in place, so the state is returned beside the outcome.
\<close>

definition set_drone_cal ::
  "drone_calibrated \<Rightarrow> real list \<Rightarrow> (py_error + unit) \<times> drone_calibrated" where
  "set_drone_cal s cal_param_list =
    (case index cal_param_list 0 of Inl e \<Rightarrow> (Inl e, s) | Inr v0 \<Rightarrow>
     let s0 = s\<lparr>pitch_f := v0\<rparr> in
     case index cal_param_list 1 of Inl e \<Rightarrow> (Inl e, s0) | Inr v1 \<Rightarrow>
     let s1 = s0\<lparr>pitch_b := v1\<rparr> in
     case index cal_param_list 2 of Inl e \<Rightarrow> (Inl e, s1) | Inr v2 \<Rightarrow>
     let s2 = s1\<lparr>roll_r := v2\<rparr> in
     case index cal_param_list 3 of Inl e \<Rightarrow> (Inl e, s2) | Inr v3 \<Rightarrow>
     let s3 = s2\<lparr>roll_l := v3\<rparr> in
     case index cal_param_list 4 of Inl e \<Rightarrow> (Inl e, s3) | Inr v4 \<Rightarrow>
     let s4 = s3\<lparr>throttle_u := v4\<rparr> in
     case index cal_param_list 5 of Inl e \<Rightarrow> (Inl e, s4) | Inr v5 \<Rightarrow>
     let s5 = s4\<lparr>throttle_d := v5\<rparr> in
     case index cal_param_list 6 of Inl e \<Rightarrow> (Inl e, s5) | Inr v6 \<Rightarrow>
     let s6 = s5\<lparr>yaw_cw := v6\<rparr> in
     case index cal_param_list 7 of Inl e \<Rightarrow> (Inl e, s6) | Inr v7 \<Rightarrow>
     let s7 = s6\<lparr>yaw_ccw := v7\<rparr> in
     (Inr (), s7\<lparr>calibrated := True\<rparr>))"

section \<open>The calibration estimator\<close>

text \<open>
  \<^verbatim>\<open>move_cal\<close> runs \<^verbatim>\<open>repeats = 2\<close> trials. Trial \<open>i\<close> reads telemetry three times; \<open>tel n\<close>
  is the result of the \<open>n\<close>-th call of \<^verbatim>\<open>get_position_data\<close> in this invocation. The
  quotient \<^verbatim>\<open>delta_y_forward / delta_y_back\<close> is Python's float division: a zero
  denominator raises ZeroDivisionError, which leaves the loop and \<^verbatim>\<open>move_cal\<close>.
  The local lists \<^verbatim>\<open>pitch_b\<close>, \<^verbatim>\<open>roll_r\<close>, ... of the source carry the suffix \<open>_list\<close> here,
  the plain names being the fields of the record.
\<close>

definition py_div :: "real \<Rightarrow> real \<Rightarrow> py_error + real" where
  "py_div a b = (if b = 0 then Inl ZeroDivisionError else Inr (a / b))"

fun cal_trials ::
  "nat \<Rightarrow> nat \<Rightarrow> real \<Rightarrow> real \<Rightarrow> (nat \<Rightarrow> position) \<Rightarrow> real list \<Rightarrow> event list
     \<Rightarrow> (py_error + real list) \<times> event list" where
  "cal_trials 0 i power_lev duration tel pitch_b_list tr = (Inr pitch_b_list, tr)"
| "cal_trials (Suc k) i power_lev duration tel pitch_b_list tr =
    (let tr1 = tr @ [Set_throttle 0, Set_roll 0, Set_pitch power_lev, Hover 2];
         (t0, x, y0, z) = tel (3 * i);
         tr2 = tr1 @ [Print ''Calibration -- moving forward'', Move duration, Hover 2];
         (t1, x, y1, z) = tel (3 * i + 1);
         delta_y_forward = y1 - y0;
         tr3 = tr2 @ [Set_pitch (- power_lev), Print ''Calibration -- moving backward'',
                      Move duration, Hover 2];
         (t2, x, y2, z) = tel (3 * i + 2);
         delta_y_back = y2 - y1
     in case py_div delta_y_forward delta_y_back of
          Inl e \<Rightarrow> (Inl e, tr3)
        | Inr q \<Rightarrow> cal_trials k (Suc i) power_lev duration tel (pitch_b_list @ [q])
                    (tr3 @ [Set_pitch 0]))"

definition illegal_msg :: string where
  "illegal_msg = ''The drone must be paired, and must have taken off, before calibration.''"

definition move_cal ::
  "drone_calibrated \<Rightarrow> real \<Rightarrow> real \<Rightarrow> (nat \<Rightarrow> position)
     \<Rightarrow> (py_error + unit) \<times> drone_calibrated \<times> event list" where
  "move_cal s power_lev duration tel =
    (let roll_r_list = []; roll_l_list = []; throttle_u_list = []; throttle_d_list = []; repeats = 2 in
     if \<not> (paired s \<and> takeoff s) then (Inr (), s, [Print illegal_msg])
     else
       case cal_trials repeats 0 power_lev duration tel [] [] of
         (Inl e, tr) \<Rightarrow> (Inl e, s, tr)
       | (Inr pitch_b_list, tr) \<Rightarrow>
          (let tr' = tr @ [Print ''Calibration Scale Factors:''] in
           case set_drone_cal s
                  [1, sum_list pitch_b_list / real repeats, sum_list roll_r_list / real repeats,
                   sum_list roll_l_list / real repeats, sum_list throttle_u_list / real repeats,
                   sum_list throttle_d_list / real repeats] of
             (Inl e, s1) \<Rightarrow> (Inl e, s1, tr')
           | (Inr u, s1) \<Rightarrow>
              (case set_drone_cal s1 [1, sum_list pitch_b_list / real repeats, 1, 1, 1, 1] of
                 (Inl e, s2) \<Rightarrow> (Inl e, s2, tr')
               | (Inr u2, s2) \<Rightarrow> (Inr (), s2, tr'))))"

text \<open>The components of a telemetry reading.\<close>

fun pos_y :: "position \<Rightarrow> real" where
  "pos_y (t, x, y, z) = y"

fun pos_x :: "position \<Rightarrow> real" where
  "pos_x (t, x, y, z) = x"

fun pos_z :: "position \<Rightarrow> real" where
  "pos_z (t, x, y, z) = z"

section \<open>Reachable states\<close>

text \<open>
  The effect of the other public operations on the fields. \<^verbatim>\<open>drone_pair\<close> sets
  \<^verbatim>\<open>paired\<close>; \<^verbatim>\<open>drone_takeoff\<close> refuses when not paired and sets \<^verbatim>\<open>takeoff\<close> otherwise;
  \<^verbatim>\<open>drone_land\<close> clears \<^verbatim>\<open>takeoff\<close>. The motion methods write no field. An exception
  raised by \<^verbatim>\<open>set_drone_cal\<close> or \<^verbatim>\<open>move_cal\<close> leaves the object in the state reached.
\<close>

definition drone_pair :: "drone_calibrated \<Rightarrow> drone_calibrated" where
  "drone_pair s = s\<lparr>paired := True\<rparr>"

definition drone_takeoff :: "drone_calibrated \<Rightarrow> drone_calibrated" where
  "drone_takeoff s = (if \<not> paired s then s else s\<lparr>takeoff := True\<rparr>)"

definition drone_land :: "drone_calibrated \<Rightarrow> drone_calibrated" where
  "drone_land s = s\<lparr>takeoff := False\<rparr>"

datatype operation =
    Op_pair
  | Op_takeoff
  | Op_land
  | Op_move_cal real real "nat \<Rightarrow> position"
  | Op_set_drone_cal "real list"

fun is_move_cal :: "operation \<Rightarrow> bool" where
  "is_move_cal (Op_move_cal p d tel) = True"
| "is_move_cal other = False"

fun step :: "drone_calibrated \<Rightarrow> operation \<Rightarrow> drone_calibrated" where
  "step s Op_pair = drone_pair s"
| "step s Op_takeoff = drone_takeoff s"
| "step s Op_land = drone_land s"
| "step s (Op_move_cal p d tel) = fst (snd (move_cal s p d tel))"
| "step s (Op_set_drone_cal cal_param_list) = snd (set_drone_cal s cal_param_list)"

definition run :: "bool \<Rightarrow> operation list \<Rightarrow> drone_calibrated" where
  "run wd ops = foldl step (init wd) ops"

text \<open>The values handed to \<^verbatim>\<open>set_drone_cal\<close> by a caller are all strictly positive.\<close>

fun positive_values :: "operation \<Rightarrow> bool" where
  "positive_values (Op_set_drone_cal cal_param_list) = list_all (\<lambda>v. 0 < v) cal_param_list"
| "positive_values other = True"

text \<open>
  A calibration completes its trials in state \<open>s\<close>: the precondition holds and neither
  backward displacement is zero.
\<close>

fun completes :: "drone_calibrated \<Rightarrow> operation \<Rightarrow> bool" where
  "completes s (Op_move_cal p d tel) =
     (paired s \<and> takeoff s \<and> pos_y (tel 2) \<noteq> pos_y (tel 1) \<and> pos_y (tel 5) \<noteq> pos_y (tel 4))"
| "completes s other = False"

fun none_completes :: "drone_calibrated \<Rightarrow> operation list \<Rightarrow> bool" where
  "none_completes s [] = True"
| "none_completes s (op # ops) = (\<not> completes s op \<and> none_completes (step s op) ops)"

text \<open>
  A telemetry oracle given by its first readings; every later reading is the origin at
  time 0.
\<close>

definition tel_of_list :: "position list \<Rightarrow> nat \<Rightarrow> position" where
  "tel_of_list ps n = (if n < length ps then ps ! n else (0, 0, 0, 0))"

text \<open>Everything but console output is a command to the vehicle.\<close>

fun is_command :: "event \<Rightarrow> bool" where
  "is_command (Print msg) = False"
| "is_command other = True"

section \<open>The segment planner\<close>

text \<open>
  \<^verbatim>\<open>r_total = math.sqrt((x1 - x0)**2 + (y1 - y0)**2 + (z1 - z0)**2)\<close>, every operation
  on doubles (the square is the rounded product).
\<close>

definition r_total :: "real \<Rightarrow> real \<Rightarrow> real \<Rightarrow> real \<Rightarrow> real \<Rightarrow> real \<Rightarrow> real" where
  "r_total x0 y0 z0 x1 y1 z1 =
    (let dx = fsub x1 x0; dy = fsub y1 y0; dz = fsub z1 z0
     in fsqrt (fadd (fadd (fmul dx dx) (fmul dy dy)) (fmul dz dz)))"

text \<open>
  \<^verbatim>\<open>num_segments = round((r_total / velocity)/delta_t)\<close> with \<^verbatim>\<open>delta_t = 0.05\<close>; the
  division by a zero velocity raises.
\<close>

definition num_segments ::
  "real \<Rightarrow> real \<Rightarrow> real \<Rightarrow> real \<Rightarrow> real \<Rightarrow> real \<Rightarrow> real \<Rightarrow> py_error + int" where
  "num_segments x0 y0 z0 x1 y1 z1 velocity =
    (let delta_t = fl (5 / 100) in
     case fdiv (r_total x0 y0 z0 x1 y1 z1) velocity of
       Inl e \<Rightarrow> Inl e
     | Inr q \<Rightarrow>
        (case fdiv q delta_t of
           Inl e \<Rightarrow> Inl e
         | Inr q' \<Rightarrow> Inr (py_round q')))"

text \<open>
  The displacement of one segment on one axis:
  \<^verbatim>\<open>delta_x = 0 if num_segments == 0 else (x1 - x0)/num_segments\<close>.
\<close>

definition segment_delta :: "real \<Rightarrow> real \<Rightarrow> int \<Rightarrow> real" where
  "segment_delta a0 a1 n = (if n = 0 then 0 else fl (fsub a1 a0 / of_int n))"

text \<open>
  \<^verbatim>\<open>send_abs_pos_w_output\<close>: the loop \<^verbatim>\<open>for i in range(0, num_segments)\<close> sends one
  absolute position per pass, \<^verbatim>\<open>x0 + i*delta_x\<close> on each axis (an empty range when
  \<^verbatim>\<open>num_segments \<le> 0\<close>). The result is the list of commands sent.
\<close>

definition send_abs_pos_w_output ::
  "real \<Rightarrow> real \<Rightarrow> real \<Rightarrow> real \<Rightarrow> real \<Rightarrow> real \<Rightarrow> real \<Rightarrow> py_error + event list" where
  "send_abs_pos_w_output x0 y0 z0 x1 y1 z1 velocity =
    (case num_segments x0 y0 z0 x1 y1 z1 velocity of
       Inl e \<Rightarrow> Inl e
     | Inr n \<Rightarrow>
        (let delta_x = segment_delta x0 x1 n;
             delta_y = segment_delta y0 y1 n;
             delta_z = segment_delta z0 z1 n
         in Inr (map (\<lambda>i. Send_absolute_position (fadd x0 (fmul (of_nat i) delta_x))
                        (fadd y0 (fmul (of_nat i) delta_y))
                        (fadd z0 (fmul (of_nat i) delta_z)) velocity)
                   [0..<nat n])))"

section \<open>Verified move\<close>

text \<open>
  One pass of the loop of \<^verbatim>\<open>send_abs_pos_verif\<close> sends the target, reads telemetry and
  then the clock. An observation is what one pass reads: the position and the value of
  \<^verbatim>\<open>time.time()\<close>. The loop is run on the list of the observations to come; when the list
  is used up while the loop condition still holds the result is \<open>None\<close>: the call has not
  returned. Otherwise the result is the number of passes and the commands sent.
\<close>

type_synonym observation = "position \<times> real"

definition time_expired :: "real \<Rightarrow> real \<Rightarrow> real \<Rightarrow> bool" where
  "time_expired start_time min_delay now = (fsub now start_time \<ge> min_delay)"

fun movement_complete ::
  "real \<Rightarrow> real \<Rightarrow> real \<Rightarrow> real \<Rightarrow> real \<Rightarrow> real \<Rightarrow> real \<Rightarrow> position \<Rightarrow> bool" where
  "movement_complete complete' x0 y0 z0 x1 y1 z1 (t, x, y, z) =
    (\<bar>fsub x x0\<bar> \<ge> fmul complete' \<bar>fsub x1 x0\<bar> \<and>
     \<bar>fsub y y0\<bar> \<ge> fmul complete' \<bar>fsub y1 y0\<bar> \<and>
     \<bar>fsub z z0\<bar> \<ge> fmul complete' \<bar>fsub z1 z0\<bar>)"

fun verif_loop ::
  "real \<Rightarrow> real \<Rightarrow> real \<Rightarrow> real \<Rightarrow> real \<Rightarrow> real \<Rightarrow> real \<Rightarrow> real \<Rightarrow> real \<Rightarrow> real
     \<Rightarrow> bool \<Rightarrow> bool \<Rightarrow> nat \<Rightarrow> event list \<Rightarrow> observation list
     \<Rightarrow> (nat \<times> event list) option" where
  "verif_loop start_time x0 y0 z0 x1 y1 z1 vel min_delay complete' te mc iteration tr [] =
    (if \<not> te \<or> \<not> mc then None else Some (iteration, tr))"
| "verif_loop start_time x0 y0 z0 x1 y1 z1 vel min_delay complete' te mc iteration tr
      ((p, now) # rest) =
    (if \<not> te \<or> \<not> mc then
       verif_loop start_time x0 y0 z0 x1 y1 z1 vel min_delay complete'
         (time_expired start_time min_delay now)
         (movement_complete complete' x0 y0 z0 x1 y1 z1 p)
         (iteration + 1) (tr @ [Send_absolute_position x1 y1 z1 vel]) rest
     else Some (iteration, tr))"

definition send_abs_pos_verif ::
  "real \<Rightarrow> real \<Rightarrow> real \<Rightarrow> real \<Rightarrow> real \<Rightarrow> real \<Rightarrow> real \<Rightarrow> real \<Rightarrow> real \<Rightarrow> real
     \<Rightarrow> observation list \<Rightarrow> (nat \<times> event list) option" where
  "send_abs_pos_verif start_time x0 y0 z0 x1 y1 z1 vel min_delay complete' obs =
     verif_loop start_time x0 y0 z0 x1 y1 z1 vel min_delay complete' False False 0 [] obs"

text \<open>Both exit conditions of the loop, at one observation.\<close>

text \<open>Both exit conditions of the loop, at one observation.\<close>

definition both_hold ::
  "real \<Rightarrow> real \<Rightarrow> real \<Rightarrow> real \<Rightarrow> real \<Rightarrow> real \<Rightarrow> real \<Rightarrow> real \<Rightarrow> real
     \<Rightarrow> observation \<Rightarrow> bool" where
  "both_hold start_time x0 y0 z0 x1 y1 z1 min_delay complete' ob =
     (time_expired start_time min_delay (snd ob) \<and>
      movement_complete complete' x0 y0 z0 x1 y1 z1 (fst ob))"

section \<open>Pattern generators\<close>

text \<open>
  A pattern generator reads telemetry itself and calls two methods of the controller,
  \<^verbatim>\<open>send_abs_pos_verif\<close> and \<^verbatim>\<open>hover_w_del\<close>. A pattern is modelled by the list of the
  calls it makes, in order, with their arguments (the label and \<^verbatim>\<open>write_note\<close> apart);
  its inputs are the results of its own calls of \<^verbatim>\<open>get_position_data\<close> and, for the
  random walks, the values drawn from \<^verbatim>\<open>random.uniform\<close>.
\<close>

datatype call =
    Send_abs_pos_verif real real real real real real real real
  | Hover_w_del real real


fun move_z_simple :: "position \<Rightarrow> real \<Rightarrow> real \<Rightarrow> real \<Rightarrow> int \<Rightarrow> call list" where
  "move_z_simple (t, x0, y0, z0) del_z vel delay repeats =
    (let t_sleep = 1; t_hover = 2;
         delta_z = (if del_z < fmul 0.75 z0 then del_z else fmul 0.75 z0) in
     concat (replicate (nat repeats)
       [Send_abs_pos_verif x0 y0 z0 x0 y0 (fadd z0 delta_z) vel delay,
        Hover_w_del t_hover t_sleep,
        Send_abs_pos_verif x0 y0 (fadd z0 delta_z) x0 y0 z0 vel delay,
        Hover_w_del t_hover t_sleep,
        Send_abs_pos_verif x0 y0 z0 x0 y0 (fsub z0 delta_z) vel delay,
        Hover_w_del t_hover t_sleep,
        Send_abs_pos_verif x0 y0 (fsub z0 delta_z) x0 y0 z0 vel delay]))"


fun move_yz_simple :: "position \<Rightarrow> real \<Rightarrow> real \<Rightarrow> real \<Rightarrow> real \<Rightarrow> int \<Rightarrow> call list" where
  "move_yz_simple (t, x0, y0, z0) del_y del_z vel delay repeats =
    (let t_sleep = 1; t_hover = 2;
         delta_z = (if del_z < fmul 0.75 z0 then del_z else fmul 0.75 z0) in
     concat (replicate (nat repeats)
       [Send_abs_pos_verif x0 y0 z0 x0 (fadd y0 del_y) z0 vel delay,
        Hover_w_del t_hover t_sleep,
        Send_abs_pos_verif x0 (fadd y0 del_y) z0 x0 y0 z0 vel delay,
        Hover_w_del t_hover t_sleep,
        Send_abs_pos_verif x0 y0 z0 x0 (fsub y0 del_y) z0 vel delay,
        Hover_w_del t_hover t_sleep,
        Send_abs_pos_verif x0 (fsub y0 del_y) z0 x0 y0 z0 vel delay,
        Hover_w_del t_hover t_sleep,
        Send_abs_pos_verif x0 y0 z0 x0 y0 (fadd z0 delta_z) vel delay,
        Hover_w_del t_hover t_sleep,
        Send_abs_pos_verif x0 y0 (fadd z0 delta_z) x0 y0 z0 vel delay,
        Hover_w_del t_hover t_sleep,
        Send_abs_pos_verif x0 y0 z0 x0 y0 (fsub z0 delta_z) vel delay,
        Hover_w_del t_hover t_sleep,
        Send_abs_pos_verif x0 y0 (fsub z0 delta_z) x0 y0 z0 vel delay]))"

subsection \<open>Random walks\<close>

text \<open>
  The box is the list \<^verbatim>\<open>[x_neg, x_pos, y_neg, y_pos, z_neg, z_pos]\<close>, here a 6-tuple. The
  test made on each axis, with \<open>a\<close> the live coordinate, \<open>a0\<close> the coordinate at entry and
  \<open>d\<close> the sampled displacement:
  \<^verbatim>\<open>if a + d < a0 + neg: d = fabs(d)  elif a + d > a0 + pos: d = -fabs(d)\<close>.
\<close>

type_synonym limits = "real \<times> real \<times> real \<times> real \<times> real \<times> real"

definition invert_sign :: "real \<Rightarrow> real \<Rightarrow> real \<Rightarrow> real \<Rightarrow> real \<Rightarrow> real" where
  "invert_sign a a0 neg pos d =
    (if a + d < a0 + neg then \<bar>d\<bar> else if a + d > a0 + pos then - \<bar>d\<bar> else d)"

text \<open>The three legs on the Y axis that both random walks begin with.\<close>

fun calibration_legs :: "position \<Rightarrow> limits \<Rightarrow> real \<Rightarrow> real \<Rightarrow> call list" where
  "calibration_legs (t, x0, y0, z0) (x_neg, x_pos, y_neg, y_pos, z_neg, z_pos) vel delay =
    (let t_sleep = 1 in
     [Send_abs_pos_verif x0 y0 z0 x0 (y0 + y_pos) z0 vel delay,
      Hover_w_del 1 t_sleep,
      Send_abs_pos_verif x0 (y0 + y_pos) z0 x0 (y0 + y_neg) z0 vel delay,
      Hover_w_del 1 t_sleep,
      Send_abs_pos_verif x0 (y0 + y_neg) z0 x0 y0 z0 vel delay,
      Hover_w_del 1 t_sleep])"

text \<open>
  One pass of the loop of \<^verbatim>\<open>move_random_xyz\<close>: \<open>(t, x, y, z)\<close> is the position read at the
  start of the pass and \<open>(delta_x, delta_y, delta_z)\<close> the three values drawn from
  \<^verbatim>\<open>random.uniform(-max_xyz[k], max_xyz[k])\<close>.
\<close>

fun xyz_segment ::
  "position \<Rightarrow> limits \<Rightarrow> real \<Rightarrow> real \<Rightarrow> position \<Rightarrow> real \<times> real \<times> real \<Rightarrow> call list" where
  "xyz_segment (t0, x0, y0, z0) (x_neg, x_pos, y_neg, y_pos, z_neg, z_pos) vel delay
      (t, x, y, z) (delta_x, delta_y, delta_z) =
    (let t_sleep = 1;
         delta_x' = invert_sign x x0 x_neg x_pos delta_x;
         delta_y' = invert_sign y y0 y_neg y_pos delta_y;
         delta_z' = invert_sign z z0 z_neg z_pos delta_z in
     [Send_abs_pos_verif x y z (x + delta_x') (y + delta_y') (z + delta_z') vel delay,
      Hover_w_del 1 t_sleep])"

text \<open>
  \<open>tel i\<close> and \<open>rnd i\<close> are the position read and the values drawn in pass \<open>i\<close> of the
  loop; \<open>p0\<close> is the position read at entry.
\<close>

definition move_random_xyz ::
  "position \<Rightarrow> limits \<Rightarrow> real \<Rightarrow> real \<Rightarrow> int \<Rightarrow> (nat \<Rightarrow> position)
     \<Rightarrow> (nat \<Rightarrow> real \<times> real \<times> real) \<Rightarrow> call list" where
  "move_random_xyz p0 box vel delay num_segs tel rnd =
     calibration_legs p0 box vel delay @
     concat (map (\<lambda>i. xyz_segment p0 box vel delay (tel i) (rnd i)) [0..<nat num_segs])"

text \<open>
  One pass of the loop of \<^verbatim>\<open>move_random_limits\<close>: the values drawn are the radius, the
  inclination and the azimuth (a fourth value, \<^verbatim>\<open>velocity\<close>, is drawn and never used).
\<close>

fun limits_segment ::
  "position \<Rightarrow> limits \<Rightarrow> real \<Rightarrow> real \<Rightarrow> position \<Rightarrow> real \<times> real \<times> real \<Rightarrow> call list" where
  "limits_segment (t0, x0, y0, z0) (x_neg, x_pos, y_neg, y_pos, z_neg, z_pos) vel delay
      (t, x, y, z) (r, theta, phi) =
    (let t_sleep = 1;
         del_z = r * cos theta;
         del_y = r * sin theta * cos phi;
         del_x = r * sin theta * sin phi;
         del_x' = invert_sign x x0 x_neg x_pos del_x;
         del_y' = invert_sign y y0 y_neg y_pos del_y;
         del_z' = invert_sign z z0 z_neg z_pos del_z in
     [Send_abs_pos_verif x y z (x + del_x') (y + del_y') (z + del_z') vel delay,
      Hover_w_del 1 t_sleep])"

definition move_random_limits ::
  "position \<Rightarrow> limits \<Rightarrow> real \<Rightarrow> real \<Rightarrow> int \<Rightarrow> (nat \<Rightarrow> position)
     \<Rightarrow> (nat \<Rightarrow> real \<times> real \<times> real) \<Rightarrow> call list" where
  "move_random_limits p0 box vel delay segments tel rnd =
     calibration_legs p0 box vel delay @
     concat (map (\<lambda>i. limits_segment p0 box vel delay (tel i) (rnd i)) [0..<nat segments])"

text \<open>
  The target of a verified move lies in the box around the position \<open>(t0, x0, y0, z0)\<close>
  when its offset from it is within the bounds on every axis. A hover has no target.
\<close>

fun in_box :: "position \<Rightarrow> limits \<Rightarrow> call \<Rightarrow> bool" where
  "in_box (t0, x0, y0, z0) (x_neg, x_pos, y_neg, y_pos, z_neg, z_pos)
      (Send_abs_pos_verif xs ys zs xt yt zt vel delay) =
     (x_neg \<le> xt - x0 \<and> xt - x0 \<le> x_pos \<and>
      y_neg \<le> yt - y0 \<and> yt - y0 \<le> y_pos \<and>
      z_neg \<le> zt - z0 \<and> zt - z0 \<le> z_pos)"
| "in_box p0 box (Hover_w_del t_hover t_sleep) = True"


section \<open>Doubles: evaluating the rounding\<close>

lemma halvings_eq:
  "2 ^ k \<le> x \<Longrightarrow> x < 2 ^ Suc k \<Longrightarrow> k \<le> n \<Longrightarrow> halvings n x = int k"
proof (induction n arbitrary: x k)
  case 0
  then show ?case by simp
next
  case (Suc n)
  show ?case
  proof (cases k)
    case 0
    with Suc.prems show ?thesis by simp
  next
    case (Suc j)
    have one: "(1::real) \<le> 2 ^ j" by simp
    from Suc Suc.prems have b: "2 * 2 ^ j \<le> x" "x < 2 * (2 * 2 ^ j)" "j \<le> n"
      by simp_all
    from b(1) one have "\<not> x < 2" by linarith
    moreover from b have "2 ^ j \<le> x / 2" "x / 2 < 2 ^ Suc j"
      by simp_all
    ultimately show ?thesis
      using Suc.IH [of j "x / 2"] Suc b(3) by simp
  qed
qed

lemma doublings_eq:
  "1 / 2 ^ k \<le> x \<Longrightarrow> x < 2 / 2 ^ k \<Longrightarrow> k \<le> n \<Longrightarrow> doublings n x = - int k"
proof (induction n arbitrary: x k)
  case 0
  then show ?case by simp
next
  case (Suc n)
  show ?case
  proof (cases k)
    case 0
    with Suc.prems show ?thesis by simp
  next
    case (Suc j)
    have "(1::real) \<le> 2 ^ j" by simp
    then have one: "(1::real) / 2 ^ j \<le> 1" by simp
    from Suc Suc.prems have b: "1 / (2 * 2 ^ j) \<le> x" "x < 1 / 2 ^ j" "j \<le> n"
      by simp_all
    from b(2) one have "\<not> 1 \<le> x" by linarith
    moreover from b have "1 / 2 ^ j \<le> 2 * x" "2 * x < 2 / 2 ^ j"
      by (simp_all add: field_simps)
    ultimately show ?thesis
      using Suc.IH [of j "2 * x"] Suc b(3) by simp
  qed
qed

lemma exponent_eqI:
  assumes "2 powi e \<le> \<bar>x\<bar>" and "\<bar>x\<bar> < 2 powi (e + 1)" and "- 1022 \<le> e" and "e \<le> 1023"
  shows "exponent x = e"
proof (cases "0 \<le> e")
  case True
  then obtain k where k: "e = int k" by (metis nonneg_int_cases)
  have "(2::real) powi (int k + 1) = 2 ^ Suc k"
    by (simp add: power_int_add)
  with assms k have a: "2 ^ k \<le> \<bar>x\<bar>" "\<bar>x\<bar> < 2 ^ Suc k" "k \<le> 1023"
    by simp_all
  then have "1 \<le> \<bar>x\<bar>"
    using one_le_power [of "2::real" k] by linarith
  with halvings_eq [OF a] k show ?thesis by (simp add: exponent_def)
next
  case False
  then have "0 \<le> - e" by simp
  then obtain k where k': "- e = int k" by (metis nonneg_int_cases)
  with False have k: "e = - int k" "0 < k" by simp_all
  have p1: "(2::real) powi (- int k) = 1 / 2 ^ k"
    by (simp add: power_int_minus field_simps)
  have p2: "(2::real) powi (1 - int k) = 2 / 2 ^ k"
    by (simp add: power_int_diff)
  from assms k have a: "1 / 2 ^ k \<le> \<bar>x\<bar>" "\<bar>x\<bar> < 2 / 2 ^ k" "k \<le> 1022"
    by (simp_all add: p1 p2)
  obtain j where j: "k = Suc j" using k(2) by (cases k) simp_all
  have "(1::real) \<le> 2 ^ j" by simp
  then have "(2::real) / 2 ^ k \<le> 1" by (simp add: j)
  with a(2) have "\<not> 1 \<le> \<bar>x\<bar>" by linarith
  with doublings_eq [OF a] k show ?thesis by (simp add: exponent_def)
qed

lemma fl_eval:
  assumes "2 powi e \<le> \<bar>x\<bar>" and "\<bar>x\<bar> < 2 powi (e + 1)" and "- 1022 \<le> e" and "e \<le> 1023"
    and "py_round (x / 2 powi (e - 52)) = m"
  shows "fl x = of_int m * 2 powi (e - 52)"
  using exponent_eqI [OF assms(1-4)] assms(5) by (simp add: fl_def)


lemma fl_zero: "fl 0 = 0"
  by (simp add: fl_def py_round_def)

lemma py_round_eqI:
  assumes "of_int m - 1 / 2 < z" and "z < of_int m + 1 / 2"
  shows "py_round z = m"
proof (cases "of_int m \<le> z")
  case True
  with assms have "\<lfloor>z\<rfloor> = m" by (simp add: floor_unique)
  with assms show ?thesis by (simp add: py_round_def)
next
  case False
  with assms have "\<lfloor>z\<rfloor> = m - 1" by (intro floor_unique) simp_all
  with assms show ?thesis by (simp add: py_round_def)
qed

lemma fl_sqrt_eval:
  assumes "(2 powi e)\<^sup>2 \<le> q" and "q < (2 powi (e + 1))\<^sup>2"
    and "- 1022 \<le> e" and "e \<le> 1023"
    and "0 < m"
    and "((of_int m - 1 / 2) * 2 powi (e - 52))\<^sup>2 < q"
    and "q < ((of_int m + 1 / 2) * 2 powi (e - 52))\<^sup>2"
  shows "fl (sqrt q) = of_int m * 2 powi (e - 52)"
proof -
  have u: "(0::real) < 2 powi (e - 52)" by simp
  have p: "(0::real) \<le> 2 powi e" "(0::real) \<le> 2 powi (e + 1)" by simp_all
  have q0: "0 \<le> q" using assms(1) by (meson order_trans zero_le_power2)
  have a: "2 powi e \<le> sqrt q"
    using assms(1) p(1) by (simp add: real_le_rsqrt)
  have b: "sqrt q < 2 powi (e + 1)"
    using assms(2) p(2) q0 by (metis abs_of_nonneg real_sqrt_abs real_sqrt_less_iff)
  have m1: "(1::real) \<le> of_int m"
    using assms(5) by linarith
  have lo: "0 \<le> (real_of_int m - 1 / 2) * 2 powi (e - 52)"
    using m1 u by (intro mult_nonneg_nonneg) simp_all
  have hi: "0 \<le> (real_of_int m + 1 / 2) * 2 powi (e - 52)"
    using m1 u by (intro mult_nonneg_nonneg) simp_all
  have c: "(of_int m - 1 / 2) * 2 powi (e - 52) < sqrt q"
    using assms(6) lo by (metis abs_of_nonneg real_sqrt_abs real_sqrt_less_iff)
  have d: "sqrt q < (of_int m + 1 / 2) * 2 powi (e - 52)"
    using assms(7) hi q0 by (metis abs_of_nonneg real_sqrt_abs real_sqrt_less_iff)
  from c d u have "of_int m - 1 / 2 < sqrt q / 2 powi (e - 52)"
    "sqrt q / 2 powi (e - 52) < of_int m + 1 / 2"
    by (simp_all add: field_simps)
  then have r: "py_round (sqrt q / 2 powi (e - 52)) = m"
    by (rule py_round_eqI)
  have s: "\<bar>sqrt q\<bar> = sqrt q" using q0 by simp
  show ?thesis
    by (rule fl_eval) (simp_all add: s a b assms(3,4) r)
qed

section \<open>Calibration: what \<^verbatim>\<open>move_cal\<close> does\<close>

lemma cal_trials_Suc:
  "cal_trials (Suc k) i p d tel pb tr =
    (if pos_y (tel (3 * i + 2)) = pos_y (tel (3 * i + 1))
     then (Inl ZeroDivisionError,
           tr @ [Set_throttle 0, Set_roll 0, Set_pitch p, Hover 2,
                 Print ''Calibration -- moving forward'', Move d, Hover 2,
                 Set_pitch (- p), Print ''Calibration -- moving backward'', Move d, Hover 2])
     else cal_trials k (Suc i) p d tel
           (pb @ [(pos_y (tel (3 * i + 1)) - pos_y (tel (3 * i))) /
                  (pos_y (tel (3 * i + 2)) - pos_y (tel (3 * i + 1)))])
           (tr @ [Set_throttle 0, Set_roll 0, Set_pitch p, Hover 2,
                 Print ''Calibration -- moving forward'', Move d, Hover 2,
                 Set_pitch (- p), Print ''Calibration -- moving backward'', Move d, Hover 2,
                 Set_pitch 0]))"
  by (cases "tel (3 * i)"; cases "tel (3 * i + 1)"; cases "tel (3 * i + 2)")
     (simp add: py_div_def)

lemma cal_trials_two:
  "fst (cal_trials 2 0 p d tel [] []) =
    (if pos_y (tel 2) = pos_y (tel 1) \<or> pos_y (tel 5) = pos_y (tel 4)
     then Inl ZeroDivisionError
     else Inr [(pos_y (tel 1) - pos_y (tel 0)) / (pos_y (tel 2) - pos_y (tel 1)),
               (pos_y (tel 4) - pos_y (tel 3)) / (pos_y (tel 5) - pos_y (tel 4))])"
proof -
  have two: "(2::nat) = Suc (Suc 0)" by simp
  show ?thesis
    unfolding two cal_trials_Suc by (simp add: eval_nat_numeral)
qed

lemma set_drone_cal_six:
  "set_drone_cal s [a, b, c, d, e, f] =
     (Inl IndexError, s\<lparr>pitch_f := a, pitch_b := b, roll_r := c, roll_l := d,
                          throttle_u := e, throttle_d := f\<rparr>)"
  by (simp add: set_drone_cal_def index_def)

text \<open>
  With the precondition met, \<^verbatim>\<open>move_cal\<close> ends in one of two exceptions: the division
  by a zero backward displacement, before any field is written, or the IndexError of
  the first call of \<^verbatim>\<open>set_drone_cal\<close>, after six fields are written.
\<close>

lemma move_cal_cases:
  assumes "paired s" "takeoff s"
  shows "fst (move_cal s p d tel) =
           (if pos_y (tel 2) = pos_y (tel 1) \<or> pos_y (tel 5) = pos_y (tel 4)
            then Inl ZeroDivisionError else Inl IndexError)"
    and "fst (snd (move_cal s p d tel)) =
           (if pos_y (tel 2) = pos_y (tel 1) \<or> pos_y (tel 5) = pos_y (tel 4) then s
            else s\<lparr>pitch_f := 1,
                   pitch_b := ((pos_y (tel 1) - pos_y (tel 0)) / (pos_y (tel 2) - pos_y (tel 1)) +
                               (pos_y (tel 4) - pos_y (tel 3)) / (pos_y (tel 5) - pos_y (tel 4))) / 2,
                   roll_r := 0, roll_l := 0, throttle_u := 0, throttle_d := 0\<rparr>)"
proof -
  obtain r tr where c: "cal_trials 2 0 p d tel [] [] = (r, tr)"
    by (cases "cal_trials 2 0 p d tel [] []")
  have r: "r = (if pos_y (tel 2) = pos_y (tel 1) \<or> pos_y (tel 5) = pos_y (tel 4)
     then Inl ZeroDivisionError
     else Inr [(pos_y (tel 1) - pos_y (tel 0)) / (pos_y (tel 2) - pos_y (tel 1)),
               (pos_y (tel 4) - pos_y (tel 3)) / (pos_y (tel 5) - pos_y (tel 4))])"
    using cal_trials_two[of p d tel] c by simp
  show "fst (move_cal s p d tel) =
           (if pos_y (tel 2) = pos_y (tel 1) \<or> pos_y (tel 5) = pos_y (tel 4)
            then Inl ZeroDivisionError else Inl IndexError)"
    using assms by (simp add: move_cal_def c r set_drone_cal_six)
  show "fst (snd (move_cal s p d tel)) =
           (if pos_y (tel 2) = pos_y (tel 1) \<or> pos_y (tel 5) = pos_y (tel 4) then s
            else s\<lparr>pitch_f := 1,
                   pitch_b := ((pos_y (tel 1) - pos_y (tel 0)) / (pos_y (tel 2) - pos_y (tel 1)) +
                               (pos_y (tel 4) - pos_y (tel 3)) / (pos_y (tel 5) - pos_y (tel 4))) / 2,
                   roll_r := 0, roll_l := 0, throttle_u := 0, throttle_d := 0\<rparr>)"
    using assms by (simp add: move_cal_def c r set_drone_cal_six)
qed

lemma airborne_state:
  "paired (drone_takeoff (drone_pair (init wd)))"
  "takeoff (drone_takeoff (drone_pair (init wd)))"
  "\<not> calibrated (drone_takeoff (drone_pair (init wd)))"
  by (simp_all add: drone_takeoff_def drone_pair_def init_def)

text \<open>
  \<^bold>\<open>C8.\<close> When \<^verbatim>\<open>move_cal\<close> is called while the controller is not both paired and
  airborne, it prints that the operation is not allowed, sends no command to the vehicle
  and leaves the eight factors and the \<^verbatim>\<open>calibrated\<close> flag as they were.
\<close>

theorem move_cal_precondition_violation:
  assumes "\<not> (paired s \<and> takeoff s)"
  shows "move_cal s power_lev duration tel = (Inr (), s, [Print illegal_msg]) \<and>
         filter is_command (snd (snd (move_cal s power_lev duration tel))) = [] \<and>
         get_drone_cal (fst (snd (move_cal s power_lev duration tel))) = get_drone_cal s \<and>
         calibrated (fst (snd (move_cal s power_lev duration tel))) = calibrated s"
  using assms by (simp add: move_cal_def)

theorem move_cal_precondition_violation_witness:
  "\<not> (paired (drone_pair (init False)) \<and> takeoff (drone_pair (init False))) \<and>
   move_cal (drone_pair (init False)) 20 2 (tel_of_list []) =
     (Inr (), drone_pair (init False), [Print illegal_msg]) \<and>
   filter is_command (snd (snd (move_cal (drone_pair (init False)) 20 2 (tel_of_list [])))) = [] \<and>
   get_drone_cal (fst (snd (move_cal (drone_pair (init False)) 20 2 (tel_of_list [])))) =
     [1, 1, 1, 1, 1, 1, 1, 1] \<and>
   calibrated (fst (snd (move_cal (drone_pair (init False)) 20 2 (tel_of_list [])))) = False"
proof -
  have h: "\<not> (paired (drone_pair (init False)) \<and> takeoff (drone_pair (init False)))"
    by (simp add: drone_pair_def init_def)
  show ?thesis
    using h move_cal_precondition_violation [OF h, of 20 2 "tel_of_list []"]
    by (simp add: get_drone_cal_def drone_pair_def init_def)
qed

text \<open>
  \<^bold>\<open>C10.\<close> When \<^verbatim>\<open>move_cal\<close> is called paired and airborne and both probe trials complete
  (no zero backward displacement), the first call of \<^verbatim>\<open>set_drone_cal\<close> gets a list of six
  values and raises IndexError at index 6, before the flag is set: \<^verbatim>\<open>calibrated\<close> keeps
  its value (\<open>False\<close> since construction), the roll and throttle factors are left at 0,
  \<^verbatim>\<open>pitch_f\<close> at 1 and \<^verbatim>\<open>pitch_b\<close> at the mean of the two ratios; the yaw factors are not
  touched.
\<close>

theorem move_cal_completed_index_error:
  assumes "paired s" and "takeoff s"
    and "pos_y (tel 2) \<noteq> pos_y (tel 1)" and "pos_y (tel 5) \<noteq> pos_y (tel 4)"
  shows "fst (move_cal s power_lev duration tel) = Inl IndexError \<and>
         calibrated (fst (snd (move_cal s power_lev duration tel))) = calibrated s \<and>
         roll_r (fst (snd (move_cal s power_lev duration tel))) = 0 \<and>
         roll_l (fst (snd (move_cal s power_lev duration tel))) = 0 \<and>
         throttle_u (fst (snd (move_cal s power_lev duration tel))) = 0 \<and>
         throttle_d (fst (snd (move_cal s power_lev duration tel))) = 0 \<and>
         pitch_f (fst (snd (move_cal s power_lev duration tel))) = 1 \<and>
         pitch_b (fst (snd (move_cal s power_lev duration tel))) =
           ((pos_y (tel 1) - pos_y (tel 0)) / (pos_y (tel 2) - pos_y (tel 1)) +
            (pos_y (tel 4) - pos_y (tel 3)) / (pos_y (tel 5) - pos_y (tel 4))) / 2 \<and>
         yaw_cw (fst (snd (move_cal s power_lev duration tel))) = yaw_cw s \<and>
         yaw_ccw (fst (snd (move_cal s power_lev duration tel))) = yaw_ccw s"
  using assms move_cal_cases [of s power_lev duration tel] by simp

theorem move_cal_completed_index_error_witness:
  "paired (drone_takeoff (drone_pair (init False))) \<and>
   takeoff (drone_takeoff (drone_pair (init False))) \<and>
   fst (move_cal (drone_takeoff (drone_pair (init False))) 20 2
     (tel_of_list [(0, 0, 0, 1), (1, 0, 2, 1), (2, 0, 1, 1),
                   (3, 0, 1, 1), (4, 0, 3, 1), (5, 0, 2, 1)])) = Inl IndexError \<and>
   \<not> calibrated (fst (snd (move_cal (drone_takeoff (drone_pair (init False))) 20 2
     (tel_of_list [(0, 0, 0, 1), (1, 0, 2, 1), (2, 0, 1, 1),
                   (3, 0, 1, 1), (4, 0, 3, 1), (5, 0, 2, 1)])))) \<and>
   roll_r (fst (snd (move_cal (drone_takeoff (drone_pair (init False))) 20 2
     (tel_of_list [(0, 0, 0, 1), (1, 0, 2, 1), (2, 0, 1, 1),
                   (3, 0, 1, 1), (4, 0, 3, 1), (5, 0, 2, 1)])))) = 0 \<and>
   throttle_d (fst (snd (move_cal (drone_takeoff (drone_pair (init False))) 20 2
     (tel_of_list [(0, 0, 0, 1), (1, 0, 2, 1), (2, 0, 1, 1),
                   (3, 0, 1, 1), (4, 0, 3, 1), (5, 0, 2, 1)])))) = 0"
proof -
  let ?s = "drone_takeoff (drone_pair (init False))"
  let ?tel = "tel_of_list [(0, 0, 0, 1), (1, 0, 2, 1), (2, 0, 1, 1),
                   (3, 0, 1, 1), (4, 0, 3, 1), (5, 0, 2, 1)]"
  have d1: "pos_y (?tel 2) \<noteq> pos_y (?tel 1)" and d2: "pos_y (?tel 5) \<noteq> pos_y (?tel 4)"
    by (simp_all add: tel_of_list_def)
  show ?thesis
    using airborne_state [of False]
      move_cal_completed_index_error [OF airborne_state(1,2) d1 d2, of False 20 2]
    by simp
qed

text \<open>
  \<^bold>\<open>C3.\<close> The specification has a zero backward displacement make the estimator fail with
  a condition of its own in place of the division. The source has no such guard: the
  division is made and Python raises ZeroDivisionError.
\<close>

theorem move_cal_zero_back_counterexample:
  "fst (move_cal (drone_takeoff (drone_pair (init False))) 20 2
         (tel_of_list [(0, 0, 0, 1), (1, 0, 2, 1), (2, 0, 2, 1)])) = Inl ZeroDivisionError"
proof -
  let ?tel = "tel_of_list [(0, 0, 0, 1), (1, 0, 2, 1), (2, 0, 2, 1)]"
  have "pos_y (?tel 2) = pos_y (?tel 1)"
    by (simp add: tel_of_list_def)
  then show ?thesis
    using move_cal_cases(1) [OF airborne_state(1,2), of False 20 2 ?tel] by simp
qed

text \<open>
  \<^bold>\<open>C3, as the code has it.\<close> When \<^verbatim>\<open>move_cal\<close> is called paired and airborne and the
  backward displacement of one of the two trials is zero, the division raises
  ZeroDivisionError, which ends \<^verbatim>\<open>move_cal\<close> before any assignment to the profile: every
  field keeps its value, so no factor computed from that run is stored.
\<close>

theorem move_cal_zero_back_raises:
  assumes "paired s" and "takeoff s"
    and "pos_y (tel 2) = pos_y (tel 1) \<or> pos_y (tel 5) = pos_y (tel 4)"
  shows "fst (move_cal s power_lev duration tel) = Inl ZeroDivisionError \<and>
         fst (snd (move_cal s power_lev duration tel)) = s"
  using assms move_cal_cases [of s power_lev duration tel] by simp

theorem move_cal_zero_back_raises_witness:
  "paired (drone_takeoff (drone_pair (init False))) \<and>
   takeoff (drone_takeoff (drone_pair (init False))) \<and>
   pos_y (tel_of_list [(0, 0, 0, 1), (1, 0, 2, 1), (2, 0, 1, 1),
                       (3, 0, 1, 1), (4, 0, 3, 1), (5, 0, 3, 1)] 5) =
   pos_y (tel_of_list [(0, 0, 0, 1), (1, 0, 2, 1), (2, 0, 1, 1),
                       (3, 0, 1, 1), (4, 0, 3, 1), (5, 0, 3, 1)] 4) \<and>
   fst (move_cal (drone_takeoff (drone_pair (init False))) 20 2
     (tel_of_list [(0, 0, 0, 1), (1, 0, 2, 1), (2, 0, 1, 1),
                   (3, 0, 1, 1), (4, 0, 3, 1), (5, 0, 3, 1)])) = Inl ZeroDivisionError \<and>
   get_drone_cal (fst (snd (move_cal (drone_takeoff (drone_pair (init False))) 20 2
     (tel_of_list [(0, 0, 0, 1), (1, 0, 2, 1), (2, 0, 1, 1),
                   (3, 0, 1, 1), (4, 0, 3, 1), (5, 0, 3, 1)])))) = [1, 1, 1, 1, 1, 1, 1, 1]"
proof -
  let ?tel = "tel_of_list [(0, 0, 0, 1), (1, 0, 2, 1), (2, 0, 1, 1),
                   (3, 0, 1, 1), (4, 0, 3, 1), (5, 0, 3, 1)]"
  have z: "pos_y (?tel 5) = pos_y (?tel 4)"
    by (simp add: tel_of_list_def)
  then have z': "pos_y (?tel 2) = pos_y (?tel 1) \<or> pos_y (?tel 5) = pos_y (?tel 4)"
    by blast
  have g: "get_drone_cal (drone_takeoff (drone_pair (init False))) = [1, 1, 1, 1, 1, 1, 1, 1]"
    by (simp add: get_drone_cal_def drone_takeoff_def drone_pair_def init_def)
  show ?thesis
    using airborne_state [of False] z g
      move_cal_zero_back_raises [OF airborne_state(1,2) z', of False 20 2]
    by simp
qed

section \<open>The profile in reachable states\<close>

lemma set_drone_cal_reference_factors:
  assumes "list_all (\<lambda>v. 0 < v) l"
    and "0 < pitch_f s \<and> 0 < yaw_cw s \<and> 0 < yaw_ccw s"
  shows "0 < pitch_f (snd (set_drone_cal s l)) \<and> 0 < yaw_cw (snd (set_drone_cal s l)) \<and>
         0 < yaw_ccw (snd (set_drone_cal s l))"
proof -
  from assms(1) have "\<And>i. i < length l \<Longrightarrow> 0 < l ! i"
    by (simp add: list_all_length)
  with assms(2) show ?thesis
    by (auto simp: set_drone_cal_def index_def Let_def)
qed

lemma set_drone_cal_all_positive:
  assumes "list_all (\<lambda>v. 0 < v) l"
    and "list_all (\<lambda>v. 0 < v) (get_drone_cal s)"
  shows "list_all (\<lambda>v. 0 < v) (get_drone_cal (snd (set_drone_cal s l)))"
proof -
  from assms(1) have "\<And>i. i < length l \<Longrightarrow> 0 < l ! i"
    by (simp add: list_all_length)
  with assms(2) show ?thesis
    by (auto simp: set_drone_cal_def index_def Let_def get_drone_cal_def)
qed

lemma set_drone_cal_eight:
  "get_drone_cal (snd (set_drone_cal s [a, b, c, d, e, f, g, h])) = [a, b, c, d, e, f, g, h] \<and>
   calibrated (snd (set_drone_cal s [a, b, c, d, e, f, g, h])) \<and>
   fst (set_drone_cal s [a, b, c, d, e, f, g, h]) = Inr ()"
  by (simp add: set_drone_cal_def index_def get_drone_cal_def)

lemma move_cal_not_completed:
  assumes "\<not> completes s (Op_move_cal p d tel)"
  shows "fst (snd (move_cal s p d tel)) = s"
proof (cases "paired s \<and> takeoff s")
  case True
  with assms show ?thesis
    using move_cal_cases(2) [of s p d tel] by auto
next
  case False
  then show ?thesis by (simp add: move_cal_def)
qed

lemma step_reference_factors:
  assumes "positive_values op" and "0 < pitch_f s \<and> 0 < yaw_cw s \<and> 0 < yaw_ccw s"
  shows "0 < pitch_f (step s op) \<and> 0 < yaw_cw (step s op) \<and> 0 < yaw_ccw (step s op)"
proof (cases op)
  case (Op_move_cal p d tel)
  show ?thesis
  proof (cases "completes s op")
    case True
    then show ?thesis
      using assms(2) Op_move_cal move_cal_cases(2) [of s p d tel] by simp
  next
    case False
    then show ?thesis
      using assms(2) Op_move_cal move_cal_not_completed [of s p d tel] by simp
  qed
next
  case (Op_set_drone_cal l)
  then show ?thesis
    using assms set_drone_cal_reference_factors [of l s] by simp
qed (use assms in \<open>simp_all add: drone_pair_def drone_takeoff_def drone_land_def\<close>)

lemma step_all_positive:
  assumes "positive_values op" and "\<not> completes s op"
    and "list_all (\<lambda>v. 0 < v) (get_drone_cal s)"
  shows "list_all (\<lambda>v. 0 < v) (get_drone_cal (step s op))"
proof (cases op)
  case (Op_move_cal p d tel)
  then show ?thesis
    using assms move_cal_not_completed [of s p d tel] by simp
next
  case (Op_set_drone_cal l)
  then show ?thesis
    using assms set_drone_cal_all_positive [of l s] by simp
qed (use assms in \<open>simp_all add: get_drone_cal_def drone_pair_def drone_takeoff_def drone_land_def\<close>)

lemma foldl_step_reference_factors:
  "list_all positive_values ops \<Longrightarrow>
   0 < pitch_f s \<and> 0 < yaw_cw s \<and> 0 < yaw_ccw s \<Longrightarrow>
   0 < pitch_f (foldl step s ops) \<and> 0 < yaw_cw (foldl step s ops) \<and>
   0 < yaw_ccw (foldl step s ops)"
proof (induction ops arbitrary: s)
  case Nil
  then show ?case by simp
next
  case (Cons op ops)
  from Cons.prems have "positive_values op" "list_all positive_values ops" by simp_all
  with step_reference_factors [OF _ Cons.prems(2), of op] Cons.IH [of "step s op"]
  show ?case by simp
qed

lemma foldl_step_all_positive:
  "list_all positive_values ops \<Longrightarrow> none_completes s ops \<Longrightarrow>
   list_all (\<lambda>v. 0 < v) (get_drone_cal s) \<Longrightarrow>
   list_all (\<lambda>v. 0 < v) (get_drone_cal (foldl step s ops))"
proof (induction ops arbitrary: s)
  case Nil
  then show ?case by simp
next
  case (Cons op ops)
  from Cons.prems have p: "positive_values op" "list_all positive_values ops"
    and c: "\<not> completes s op" "none_completes (step s op) ops"
    by simp_all
  from step_all_positive [OF p(1) c(1) Cons.prems(3)] Cons.IH [OF p(2) c(2)]
  show ?case by simp
qed

text \<open>
  \<^bold>\<open>C4.\<close> The specification has all eight factors strictly positive in every reachable
  state. After a calibration whose trials complete, \<^verbatim>\<open>pitch_b\<close> is the mean of the ratios
  forward displacement / backward displacement, and the two displacements have opposite
  signs when the vehicle goes forward and comes back: here 2 m forward and 1 m back,
  twice, give \<open>- 2\<close>. And \<^verbatim>\<open>set_drone_cal\<close> stores what it is given: here \<open>- 1\<close> for
  \<^verbatim>\<open>yaw_ccw\<close>.
\<close>

theorem profile_positive_counterexample:
  "\<not> 0 < pitch_b (run False [Op_pair, Op_takeoff,
         Op_move_cal 20 2 (tel_of_list [(0, 0, 0, 1), (1, 0, 2, 1), (2, 0, 1, 1),
                                        (3, 0, 1, 1), (4, 0, 3, 1), (5, 0, 2, 1)])]) \<and>
   \<not> 0 < yaw_ccw (run False [Op_set_drone_cal [1, 1, 1, 1, 1, 1, 1, - 1]])"
proof -
  let ?tel = "tel_of_list [(0, 0, 0, 1), (1, 0, 2, 1), (2, 0, 1, 1),
                   (3, 0, 1, 1), (4, 0, 3, 1), (5, 0, 2, 1)]"
  have y: "pos_y (?tel 0) = 0" "pos_y (?tel 1) = 2" "pos_y (?tel 2) = 1"
          "pos_y (?tel 3) = 1" "pos_y (?tel 4) = 3" "pos_y (?tel 5) = 2"
    by (simp_all add: tel_of_list_def)
  have "pitch_b (fst (snd (move_cal (drone_takeoff (drone_pair (init False))) 20 2 ?tel))) = - 2"
    using move_cal_cases(2) [OF airborne_state(1,2), of False 20 2 ?tel] y by simp
  moreover have "yaw_ccw (snd (set_drone_cal (init False) [1, 1, 1, 1, 1, 1, 1, - 1])) = - 1"
    by (simp add: set_drone_cal_def index_def)
  ultimately show ?thesis
    by (simp add: run_def)
qed

text \<open>
  \<^bold>\<open>C4, as the code has it.\<close> Take any sequence of \<^verbatim>\<open>drone_pair\<close>, \<^verbatim>\<open>drone_takeoff\<close>,
  \<^verbatim>\<open>drone_land\<close>, \<^verbatim>\<open>move_cal\<close> and \<^verbatim>\<open>set_drone_cal\<close> applied to a new controller, with any
  telemetry, in which every value handed to \<^verbatim>\<open>set_drone_cal\<close> is strictly positive. Then
  \<^verbatim>\<open>pitch_f\<close>, \<^verbatim>\<open>yaw_cw\<close> and \<^verbatim>\<open>yaw_ccw\<close> are strictly positive in the state reached; and
  all eight factors are, as long as no calibration has completed its trials
  (calibrations refused by the precondition or ended by a zero backward displacement
  change nothing). A calibration that completes its trials leaves \<^verbatim>\<open>pitch_f\<close> at 1, the
  yaw factors as they were, and \<^verbatim>\<open>pitch_b\<close> at the mean of the two ratios forward
  displacement / backward displacement, whatever its sign. \<^verbatim>\<open>set_drone_cal\<close> with eight
  values stores them as they are and sets the flag.
\<close>

theorem profile_reference_factors_positive:
  "(list_all positive_values ops \<longrightarrow>
      0 < pitch_f (run wd ops) \<and> 0 < yaw_cw (run wd ops) \<and> 0 < yaw_ccw (run wd ops)) \<and>
   (list_all positive_values ops \<and> none_completes (init wd) ops \<longrightarrow>
      list_all (\<lambda>v. 0 < v) (get_drone_cal (run wd ops))) \<and>
   (paired s \<and> takeoff s \<and> pos_y (tel 2) \<noteq> pos_y (tel 1) \<and> pos_y (tel 5) \<noteq> pos_y (tel 4) \<longrightarrow>
      pitch_f (step s (Op_move_cal power_lev duration tel)) = 1 \<and>
      pitch_b (step s (Op_move_cal power_lev duration tel)) =
        ((pos_y (tel 1) - pos_y (tel 0)) / (pos_y (tel 2) - pos_y (tel 1)) +
         (pos_y (tel 4) - pos_y (tel 3)) / (pos_y (tel 5) - pos_y (tel 4))) / 2 \<and>
      yaw_cw (step s (Op_move_cal power_lev duration tel)) = yaw_cw s \<and>
      yaw_ccw (step s (Op_move_cal power_lev duration tel)) = yaw_ccw s) \<and>
   get_drone_cal (step s (Op_set_drone_cal [a, b, c, d, e, f, g, h])) = [a, b, c, d, e, f, g, h] \<and>
   calibrated (step s (Op_set_drone_cal [a, b, c, d, e, f, g, h]))"
proof -
  have i: "0 < pitch_f (init wd) \<and> 0 < yaw_cw (init wd) \<and> 0 < yaw_ccw (init wd)"
    by (simp add: init_def)
  have g: "list_all (\<lambda>v. 0 < v) (get_drone_cal (init wd))"
    by (simp add: init_def get_drone_cal_def)
  have one: "0 < pitch_f (run wd ops) \<and> 0 < yaw_cw (run wd ops) \<and> 0 < yaw_ccw (run wd ops)"
    if "list_all positive_values ops"
    using foldl_step_reference_factors [OF that i] by (simp add: run_def)
  have two: "list_all (\<lambda>v. 0 < v) (get_drone_cal (run wd ops))"
    if "list_all positive_values ops \<and> none_completes (init wd) ops"
    using foldl_step_all_positive [of ops "init wd"] that g by (simp add: run_def)
  have three: "pitch_f (step s (Op_move_cal power_lev duration tel)) = 1 \<and>
      pitch_b (step s (Op_move_cal power_lev duration tel)) =
        ((pos_y (tel 1) - pos_y (tel 0)) / (pos_y (tel 2) - pos_y (tel 1)) +
         (pos_y (tel 4) - pos_y (tel 3)) / (pos_y (tel 5) - pos_y (tel 4))) / 2 \<and>
      yaw_cw (step s (Op_move_cal power_lev duration tel)) = yaw_cw s \<and>
      yaw_ccw (step s (Op_move_cal power_lev duration tel)) = yaw_ccw s"
    if "paired s \<and> takeoff s \<and> pos_y (tel 2) \<noteq> pos_y (tel 1) \<and> pos_y (tel 5) \<noteq> pos_y (tel 4)"
    using that move_cal_cases(2) [of s power_lev duration tel] by simp
  have four: "get_drone_cal (step s (Op_set_drone_cal [a, b, c, d, e, f, g, h])) =
      [a, b, c, d, e, f, g, h] \<and>
      calibrated (step s (Op_set_drone_cal [a, b, c, d, e, f, g, h]))"
    using set_drone_cal_eight [of s a b c d e f g h] by simp
  show ?thesis
    using one two three four by blast
qed

theorem profile_reference_factors_positive_witness:
  "list_all positive_values
     [Op_pair, Op_set_drone_cal [2, 3, 4, 5, 6, 7, 8, 9],
      Op_move_cal 20 2 (tel_of_list []), Op_takeoff, Op_land] \<and>
   none_completes (init False)
     [Op_pair, Op_set_drone_cal [2, 3, 4, 5, 6, 7, 8, 9],
      Op_move_cal 20 2 (tel_of_list []), Op_takeoff, Op_land] \<and>
   list_all (\<lambda>v. 0 < v) (get_drone_cal (run False
     [Op_pair, Op_set_drone_cal [2, 3, 4, 5, 6, 7, 8, 9],
      Op_move_cal 20 2 (tel_of_list []), Op_takeoff, Op_land])) \<and>
   0 < yaw_ccw (run False
     [Op_pair, Op_takeoff,
      Op_move_cal 20 2 (tel_of_list [(0, 0, 0, 1), (1, 0, 2, 1), (2, 0, 1, 1),
                                     (3, 0, 1, 1), (4, 0, 3, 1), (5, 0, 2, 1)])]) \<and>
   pitch_b (step (drone_takeoff (drone_pair (init False)))
     (Op_move_cal 20 2 (tel_of_list [(0, 0, 0, 1), (1, 0, 2, 1), (2, 0, 1, 1),
                                     (3, 0, 1, 1), (4, 0, 3, 1), (5, 0, 2, 1)]))) = - 2 \<and>
   get_drone_cal (step (init False) (Op_set_drone_cal [2, 3, 4, 5, 6, 7, 8, 9])) =
     [2, 3, 4, 5, 6, 7, 8, 9]"
proof -
  let ?ops = "[Op_pair, Op_set_drone_cal [2, 3, 4, 5, 6, 7, 8, 9],
      Op_move_cal 20 2 (tel_of_list []), Op_takeoff, Op_land]"
  let ?tel = "tel_of_list [(0, 0, 0, 1), (1, 0, 2, 1), (2, 0, 1, 1),
                   (3, 0, 1, 1), (4, 0, 3, 1), (5, 0, 2, 1)]"
  let ?cal = "[Op_pair, Op_takeoff, Op_move_cal 20 2 ?tel]"
  have p: "list_all positive_values ?ops"
    by simp
  have n: "none_completes (init False) ?ops"
    by (simp add: init_def drone_pair_def set_drone_cal_def index_def move_cal_def)
  have pc: "list_all positive_values ?cal"
    by simp
  have y: "pos_y (?tel 0) = 0" "pos_y (?tel 1) = 2" "pos_y (?tel 2) = 1"
          "pos_y (?tel 3) = 1" "pos_y (?tel 4) = 3" "pos_y (?tel 5) = 2"
    by (simp_all add: tel_of_list_def)
  have h: "paired (drone_takeoff (drone_pair (init False))) \<and>
           takeoff (drone_takeoff (drone_pair (init False))) \<and>
           pos_y (?tel 2) \<noteq> pos_y (?tel 1) \<and> pos_y (?tel 5) \<noteq> pos_y (?tel 4)"
    using airborne_state [of False] y by simp
  from profile_reference_factors_positive [of ?ops False] p n
  have a: "list_all (\<lambda>v. 0 < v) (get_drone_cal (run False ?ops))"
    by blast
  from profile_reference_factors_positive [of ?cal False] pc
  have b: "0 < yaw_ccw (run False ?cal)"
    by blast
  from profile_reference_factors_positive
    [of _ _ "drone_takeoff (drone_pair (init False))" ?tel 20 2] h
  have "pitch_b (step (drone_takeoff (drone_pair (init False))) (Op_move_cal 20 2 ?tel)) =
        ((pos_y (?tel 1) - pos_y (?tel 0)) / (pos_y (?tel 2) - pos_y (?tel 1)) +
         (pos_y (?tel 4) - pos_y (?tel 3)) / (pos_y (?tel 5) - pos_y (?tel 4))) / 2"
    by blast
  then have c: "pitch_b (step (drone_takeoff (drone_pair (init False)))
      (Op_move_cal 20 2 ?tel)) = - 2"
    unfolding y by simp
  from profile_reference_factors_positive
    [of _ _ "init False" _ _ _ 2 3 4 5 6 7 8 9]
  have d: "get_drone_cal (step (init False) (Op_set_drone_cal [2, 3, 4, 5, 6, 7, 8, 9])) =
     [2, 3, 4, 5, 6, 7, 8, 9]"
    by blast
  show ?thesis
    using p n a b c d by blast
qed

section \<open>The segment planner\<close>

lemma fl_delta_t: "fl (1 / 20) = 3602879701896397 / 72057594037927936"
proof -
  have "fl (1 / 20) = of_int 7205759403792794 * 2 powi (- 5 - 52)"
    by (rule fl_eval) (simp_all add: py_round_def power_int_minus)
  then show ?thesis
    by (simp add: power_int_minus)
qed

lemma r_total_same: "r_total x y z x y z = 0"
  by (simp add: r_total_def fsub_def fmul_def fadd_def fsqrt_def fl_zero)

lemma num_segments_value:
  "velocity \<noteq> 0 \<Longrightarrow>
   num_segments x0 y0 z0 x1 y1 z1 velocity =
     Inr (py_round (fl (fl (r_total x0 y0 z0 x1 y1 z1 / velocity) / fl (5 / 100))))"
  by (simp add: num_segments_def fdiv_def fl_delta_t Let_def)

lemma send_abs_pos_w_output_value:
  assumes "num_segments x0 y0 z0 x1 y1 z1 velocity = Inr n"
  shows "send_abs_pos_w_output x0 y0 z0 x1 y1 z1 velocity =
     Inr (map (\<lambda>i. Send_absolute_position
                 (fadd x0 (fmul (real i) (segment_delta x0 x1 n)))
                 (fadd y0 (fmul (real i) (segment_delta y0 y1 n)))
                 (fadd z0 (fmul (real i) (segment_delta z0 z1 n))) velocity)
            [0..<nat n])"
  using assms by (simp add: send_abs_pos_w_output_def)

text \<open>
  The values of the double operations met on the way, for a move of 0.01 along \<open>y\<close> at
  speed 0.5, for the same along \<open>z\<close>, and for a move of 0.23 along \<open>z\<close> at speed 1.
\<close>

lemma planner_values_y:
  shows "fl (1 / 20) = 3602879701896397 / 72057594037927936"
    and "fl (1 / 100) = 5764607523034235 / 576460752303423488"
    and "fl (33230699894622898206100982035225 / 332306998946228968225951765070086144) = 7378697629483821 / 73786976294838206464"
    and "fl (7378697629483821 / 73786976294838206464) = 7378697629483821 / 73786976294838206464"
    and "fl (sqrt (7378697629483821 / 73786976294838206464)) = 5764607523034235 / 576460752303423488"
    and "fl (5764607523034235 / 288230376151711744) = 5764607523034235 / 288230376151711744"
    and "fl (5764607523034235 / 14411518807585588) = 7205759403792793 / 18014398509481984"
proof -
  have "fl (1 / 20) = of_int 7205759403792794 * 2 powi (- 5 - 52)"
    by (rule fl_eval) (simp_all add: py_round_def power_int_minus)
  then show "fl (1 / 20) = 3602879701896397 / 72057594037927936"
    by (simp add: power_int_minus)
  have "fl (1 / 100) = of_int 5764607523034235 * 2 powi (- 7 - 52)"
    by (rule fl_eval) (simp_all add: py_round_def power_int_minus)
  then show "fl (1 / 100) = 5764607523034235 / 576460752303423488"
    by (simp add: power_int_minus)
  have "fl (33230699894622898206100982035225 / 332306998946228968225951765070086144) = of_int 7378697629483821 * 2 powi (- 14 - 52)"
    by (rule fl_eval) (simp_all add: py_round_def power_int_minus)
  then show "fl (33230699894622898206100982035225 / 332306998946228968225951765070086144) = 7378697629483821 / 73786976294838206464"
    by (simp add: power_int_minus)
  have "fl (7378697629483821 / 73786976294838206464) = of_int 7378697629483821 * 2 powi (- 14 - 52)"
    by (rule fl_eval) (simp_all add: py_round_def power_int_minus)
  then show "fl (7378697629483821 / 73786976294838206464) = 7378697629483821 / 73786976294838206464"
    by (simp add: power_int_minus)
  have "fl (sqrt (7378697629483821 / 73786976294838206464)) = of_int 5764607523034235 * 2 powi (- 7 - 52)"
    by (rule fl_sqrt_eval) (simp_all add: power2_eq_square power_int_minus)
  then show "fl (sqrt (7378697629483821 / 73786976294838206464)) = 5764607523034235 / 576460752303423488"
    by (simp add: power_int_minus)
  have "fl (5764607523034235 / 288230376151711744) = of_int 5764607523034235 * 2 powi (- 6 - 52)"
    by (rule fl_eval) (simp_all add: py_round_def power_int_minus)
  then show "fl (5764607523034235 / 288230376151711744) = 5764607523034235 / 288230376151711744"
    by (simp add: power_int_minus)
  have "fl (5764607523034235 / 14411518807585588) = of_int 7205759403792793 * 2 powi (- 2 - 52)"
    by (rule fl_eval) (simp_all add: py_round_def power_int_minus)
  then show "fl (5764607523034235 / 14411518807585588) = 7205759403792793 / 18014398509481984"
    by (simp add: power_int_minus)
qed

lemma planner_values_z:
  shows "fl (1 / 100) = 5764607523034235 / 576460752303423488"
    and "fl (1 / 20) = 3602879701896397 / 72057594037927936"
    and "fl (5764607523034235 / 576460752303423488) = 5764607523034235 / 576460752303423488"
    and "fl (33230699894622898206100982035225 / 332306998946228968225951765070086144) = 7378697629483821 / 73786976294838206464"
    and "fl (7378697629483821 / 73786976294838206464) = 7378697629483821 / 73786976294838206464"
    and "fl (sqrt (7378697629483821 / 73786976294838206464)) = 5764607523034235 / 576460752303423488"
    and "fl (5764607523034235 / 288230376151711744) = 5764607523034235 / 288230376151711744"
    and "fl (5764607523034235 / 14411518807585588) = 7205759403792793 / 18014398509481984"
proof -
  have "fl (1 / 100) = of_int 5764607523034235 * 2 powi (- 7 - 52)"
    by (rule fl_eval) (simp_all add: py_round_def power_int_minus)
  then show "fl (1 / 100) = 5764607523034235 / 576460752303423488"
    by (simp add: power_int_minus)
  have "fl (1 / 20) = of_int 7205759403792794 * 2 powi (- 5 - 52)"
    by (rule fl_eval) (simp_all add: py_round_def power_int_minus)
  then show "fl (1 / 20) = 3602879701896397 / 72057594037927936"
    by (simp add: power_int_minus)
  have "fl (5764607523034235 / 576460752303423488) = of_int 5764607523034235 * 2 powi (- 7 - 52)"
    by (rule fl_eval) (simp_all add: py_round_def power_int_minus)
  then show "fl (5764607523034235 / 576460752303423488) = 5764607523034235 / 576460752303423488"
    by (simp add: power_int_minus)
  have "fl (33230699894622898206100982035225 / 332306998946228968225951765070086144) = of_int 7378697629483821 * 2 powi (- 14 - 52)"
    by (rule fl_eval) (simp_all add: py_round_def power_int_minus)
  then show "fl (33230699894622898206100982035225 / 332306998946228968225951765070086144) = 7378697629483821 / 73786976294838206464"
    by (simp add: power_int_minus)
  have "fl (7378697629483821 / 73786976294838206464) = of_int 7378697629483821 * 2 powi (- 14 - 52)"
    by (rule fl_eval) (simp_all add: py_round_def power_int_minus)
  then show "fl (7378697629483821 / 73786976294838206464) = 7378697629483821 / 73786976294838206464"
    by (simp add: power_int_minus)
  have "fl (sqrt (7378697629483821 / 73786976294838206464)) = of_int 5764607523034235 * 2 powi (- 7 - 52)"
    by (rule fl_sqrt_eval) (simp_all add: power2_eq_square power_int_minus)
  then show "fl (sqrt (7378697629483821 / 73786976294838206464)) = 5764607523034235 / 576460752303423488"
    by (simp add: power_int_minus)
  have "fl (5764607523034235 / 288230376151711744) = of_int 5764607523034235 * 2 powi (- 6 - 52)"
    by (rule fl_eval) (simp_all add: py_round_def power_int_minus)
  then show "fl (5764607523034235 / 288230376151711744) = 5764607523034235 / 288230376151711744"
    by (simp add: power_int_minus)
  have "fl (5764607523034235 / 14411518807585588) = of_int 7205759403792793 * 2 powi (- 2 - 52)"
    by (rule fl_eval) (simp_all add: py_round_def power_int_minus)
  then show "fl (5764607523034235 / 14411518807585588) = 7205759403792793 / 18014398509481984"
    by (simp add: power_int_minus)
qed

lemma planner_values_23:
  shows "fl (23 / 100) = 8286623314361713 / 36028797018963968"
    and "fl (1 / 20) = 3602879701896397 / 72057594037927936"
    and "fl (8286623314361713 / 36028797018963968) = 8286623314361713 / 36028797018963968"
    and "fl (68668125954123101353684600294369 / 1298074214633706907132624082305024) = 952961681151597 / 18014398509481984"
    and "fl (952961681151597 / 18014398509481984) = 952961681151597 / 18014398509481984"
    and "fl (sqrt (952961681151597 / 18014398509481984)) = 8286623314361713 / 36028797018963968"
    and "fl (16573246628723426 / 3602879701896397) = 2589569785738035 / 562949953421312"
    and "fl (8286623314361713 / 180143985094819840) = 3314649325744685 / 72057594037927936"
    and "fl (3314649325744685 / 72057594037927936) = 3314649325744685 / 72057594037927936"
    and "fl (3314649325744685 / 36028797018963968) = 3314649325744685 / 36028797018963968"
    and "fl (9943947977234055 / 72057594037927936) = 1242993497154257 / 9007199254740992"
    and "fl (1242993497154257 / 9007199254740992) = 1242993497154257 / 9007199254740992"
    and "fl (3314649325744685 / 18014398509481984) = 3314649325744685 / 18014398509481984"
    and "fl (13258597302978741 / 72057594037927936) = 3314649325744685 / 18014398509481984"
    and "fl (16573246628723425 / 72057594037927936) = 517913957147607 / 2251799813685248"
proof -
  have "fl (23 / 100) = of_int 8286623314361713 * 2 powi (- 3 - 52)"
    by (rule fl_eval) (simp_all add: py_round_def power_int_minus)
  then show "fl (23 / 100) = 8286623314361713 / 36028797018963968"
    by (simp add: power_int_minus)
  have "fl (1 / 20) = of_int 7205759403792794 * 2 powi (- 5 - 52)"
    by (rule fl_eval) (simp_all add: py_round_def power_int_minus)
  then show "fl (1 / 20) = 3602879701896397 / 72057594037927936"
    by (simp add: power_int_minus)
  have "fl (8286623314361713 / 36028797018963968) = of_int 8286623314361713 * 2 powi (- 3 - 52)"
    by (rule fl_eval) (simp_all add: py_round_def power_int_minus)
  then show "fl (8286623314361713 / 36028797018963968) = 8286623314361713 / 36028797018963968"
    by (simp add: power_int_minus)
  have "fl (68668125954123101353684600294369 / 1298074214633706907132624082305024) = of_int 7623693449212776 * 2 powi (- 5 - 52)"
    by (rule fl_eval) (simp_all add: py_round_def power_int_minus)
  then show "fl (68668125954123101353684600294369 / 1298074214633706907132624082305024) = 952961681151597 / 18014398509481984"
    by (simp add: power_int_minus)
  have "fl (952961681151597 / 18014398509481984) = of_int 7623693449212776 * 2 powi (- 5 - 52)"
    by (rule fl_eval) (simp_all add: py_round_def power_int_minus)
  then show "fl (952961681151597 / 18014398509481984) = 952961681151597 / 18014398509481984"
    by (simp add: power_int_minus)
  have "fl (sqrt (952961681151597 / 18014398509481984)) = of_int 8286623314361713 * 2 powi (- 3 - 52)"
    by (rule fl_sqrt_eval) (simp_all add: power2_eq_square power_int_minus)
  then show "fl (sqrt (952961681151597 / 18014398509481984)) = 8286623314361713 / 36028797018963968"
    by (simp add: power_int_minus)
  have "fl (16573246628723426 / 3602879701896397) = of_int 5179139571476070 * 2 powi (2 - 52)"
    by (rule fl_eval) (simp_all add: py_round_def power_int_minus)
  then show "fl (16573246628723426 / 3602879701896397) = 2589569785738035 / 562949953421312"
    by (simp add: power_int_minus)
  have "fl (8286623314361713 / 180143985094819840) = of_int 6629298651489370 * 2 powi (- 5 - 52)"
    by (rule fl_eval) (simp_all add: py_round_def power_int_minus)
  then show "fl (8286623314361713 / 180143985094819840) = 3314649325744685 / 72057594037927936"
    by (simp add: power_int_minus)
  have "fl (3314649325744685 / 72057594037927936) = of_int 6629298651489370 * 2 powi (- 5 - 52)"
    by (rule fl_eval) (simp_all add: py_round_def power_int_minus)
  then show "fl (3314649325744685 / 72057594037927936) = 3314649325744685 / 72057594037927936"
    by (simp add: power_int_minus)
  have "fl (3314649325744685 / 36028797018963968) = of_int 6629298651489370 * 2 powi (- 4 - 52)"
    by (rule fl_eval) (simp_all add: py_round_def power_int_minus)
  then show "fl (3314649325744685 / 36028797018963968) = 3314649325744685 / 36028797018963968"
    by (simp add: power_int_minus)
  have "fl (9943947977234055 / 72057594037927936) = of_int 4971973988617028 * 2 powi (- 3 - 52)"
    by (rule fl_eval) (simp_all add: py_round_def power_int_minus)
  then show "fl (9943947977234055 / 72057594037927936) = 1242993497154257 / 9007199254740992"
    by (simp add: power_int_minus)
  have "fl (1242993497154257 / 9007199254740992) = of_int 4971973988617028 * 2 powi (- 3 - 52)"
    by (rule fl_eval) (simp_all add: py_round_def power_int_minus)
  then show "fl (1242993497154257 / 9007199254740992) = 1242993497154257 / 9007199254740992"
    by (simp add: power_int_minus)
  have "fl (3314649325744685 / 18014398509481984) = of_int 6629298651489370 * 2 powi (- 3 - 52)"
    by (rule fl_eval) (simp_all add: py_round_def power_int_minus)
  then show "fl (3314649325744685 / 18014398509481984) = 3314649325744685 / 18014398509481984"
    by (simp add: power_int_minus)
  have "fl (13258597302978741 / 72057594037927936) = of_int 6629298651489370 * 2 powi (- 3 - 52)"
    by (rule fl_eval) (simp_all add: py_round_def power_int_minus)
  then show "fl (13258597302978741 / 72057594037927936) = 3314649325744685 / 18014398509481984"
    by (simp add: power_int_minus)
  have "fl (16573246628723425 / 72057594037927936) = of_int 8286623314361712 * 2 powi (- 3 - 52)"
    by (rule fl_eval) (simp_all add: py_round_def power_int_minus)
  then show "fl (16573246628723425 / 72057594037927936) = 517913957147607 / 2251799813685248"
    by (simp add: power_int_minus)
qed

lemma num_segments_y_cm: "num_segments 0 0 1 0 (1 / 100) 1 (1 / 2) = Inr 0"
  by (simp add: num_segments_def r_total_def fdiv_def fadd_def fsub_def fmul_def fsqrt_def
      fl_zero planner_values_y py_round_def Let_def)

lemma num_segments_z_cm: "num_segments 0 0 0 0 0 (fl (1 / 100)) (1 / 2) = Inr 0"
  by (simp add: num_segments_def r_total_def fdiv_def fadd_def fsub_def fmul_def fsqrt_def
      fl_zero planner_values_z py_round_def Let_def)

lemma num_segments_z_23: "num_segments 0 0 0 0 0 (fl (23 / 100)) 1 = Inr 5"
  by (simp add: num_segments_def r_total_def fdiv_def fadd_def fsub_def fmul_def fsqrt_def
      fl_zero planner_values_23 py_round_def Let_def)

text \<open>
  \<^bold>\<open>C5.\<close> The specification says that for a start different from the target and a positive
  speed the displacements of the emitted segments add up to target - start exactly, with
  no drift from rounding. First, a move of 0.01 at speed 0.5 gives
  \<open>round(0.39999999999999997) = 0\<close> segments: nothing is emitted. Second, a move of 0.23
  at speed 1 gives 5 segments of \<open>0.23 / 5 = 0.046\<close> (a double), and five of them are not
  0.23: neither their exact sum nor their sum in doubles, which is 0.22999999999999998.
\<close>

theorem planner_sum_counterexample:
  "fl (1 / 100) \<noteq> 0 \<and>
   num_segments 0 0 0 0 0 (fl (1 / 100)) (1 / 2) = Inr 0 \<and>
   send_abs_pos_w_output 0 0 0 0 0 (fl (1 / 100)) (1 / 2) = Inr [] \<and>
   num_segments 0 0 0 0 0 (fl (23 / 100)) 1 = Inr 5 \<and>
   5 * segment_delta 0 (fl (23 / 100)) 5 \<noteq> fl (23 / 100) - 0 \<and>
   fadd (fadd (fadd (fadd (segment_delta 0 (fl (23 / 100)) 5) (segment_delta 0 (fl (23 / 100)) 5))
                 (segment_delta 0 (fl (23 / 100)) 5))
           (segment_delta 0 (fl (23 / 100)) 5))
     (segment_delta 0 (fl (23 / 100)) 5) \<noteq> fl (23 / 100)"
proof -
  have a: "fl (1 / 100) \<noteq> 0"
    by (simp add: planner_values_z)
  have b: "send_abs_pos_w_output 0 0 0 0 0 (fl (1 / 100)) (1 / 2) = Inr []"
    using send_abs_pos_w_output_value [OF num_segments_z_cm] by simp
  have d: "segment_delta 0 (fl (23 / 100)) 5 = 3314649325744685 / 2 ^ 56"
    by (simp add: segment_delta_def fsub_def planner_values_23)
  have c: "5 * segment_delta 0 (fl (23 / 100)) 5 \<noteq> fl (23 / 100) - 0"
    unfolding d by (simp add: planner_values_23)
  have e: "fadd (fadd (fadd (fadd (3314649325744685 / 2 ^ 56) (3314649325744685 / 2 ^ 56))
                 (3314649325744685 / 2 ^ 56)) (3314649325744685 / 2 ^ 56))
              (3314649325744685 / 2 ^ 56) \<noteq> fl (23 / 100)"
    by (simp add: fadd_def planner_values_23)
  show ?thesis
    using a b c e num_segments_z_cm num_segments_z_23 unfolding d by blast
qed

text \<open>
  \<^bold>\<open>C5, as the code has it.\<close> For a speed other than zero, let
  \<open>n = round((r_total / speed) / 0.05)\<close>, where \<open>r_total\<close> is the root of the sum of the
  squared differences and every operation is that of doubles. The planner emits \<open>n\<close>
  commands (none when \<open>n \<le> 0\<close>); command \<open>i\<close>, for \<open>i = 0, ..., n - 1\<close>, is at
  \<open>start + i * ((target - start) / n)\<close> on each axis, in doubles, with the requested
  speed. When start and target are equal \<open>n\<close> is 0 and nothing is emitted. Nothing is
  said of the sum of the displacements: it is target - start only up to rounding, and
  only when \<open>n \<ge> 1\<close>.
\<close>

theorem planner_segments:
  assumes "velocity \<noteq> 0"
  shows "let n = py_round (fl (fl (r_total x0 y0 z0 x1 y1 z1 / velocity) / fl (5 / 100))) in
     r_total x0 y0 z0 x1 y1 z1 =
       fsqrt (fadd (fadd (fmul (fsub x1 x0) (fsub x1 x0)) (fmul (fsub y1 y0) (fsub y1 y0)))
                (fmul (fsub z1 z0) (fsub z1 z0))) \<and>
     num_segments x0 y0 z0 x1 y1 z1 velocity = Inr n \<and>
     send_abs_pos_w_output x0 y0 z0 x1 y1 z1 velocity =
       Inr (map (\<lambda>i. Send_absolute_position
                   (fadd x0 (fmul (real i) (fl (fsub x1 x0 / real_of_int n))))
                   (fadd y0 (fmul (real i) (fl (fsub y1 y0 / real_of_int n))))
                   (fadd z0 (fmul (real i) (fl (fsub z1 z0 / real_of_int n)))) velocity)
              [0..<nat n]) \<and>
     (x0 = x1 \<and> y0 = y1 \<and> z0 = z1 \<longrightarrow>
        n = 0 \<and> send_abs_pos_w_output x0 y0 z0 x1 y1 z1 velocity = Inr [])"
proof -
  define n where "n = py_round (fl (fl (r_total x0 y0 z0 x1 y1 z1 / velocity) / fl (5 / 100)))"
  have r: "r_total x0 y0 z0 x1 y1 z1 =
       fsqrt (fadd (fadd (fmul (fsub x1 x0) (fsub x1 x0)) (fmul (fsub y1 y0) (fsub y1 y0)))
                (fmul (fsub z1 z0) (fsub z1 z0)))"
    by (simp add: r_total_def Let_def)
  have ns: "num_segments x0 y0 z0 x1 y1 z1 velocity = Inr n"
    using assms by (simp add: num_segments_value n_def)
  have same: "n = 0" if "x0 = x1 \<and> y0 = y1 \<and> z0 = z1"
    using that by (simp add: n_def r_total_same fl_zero py_round_def)
  have out: "send_abs_pos_w_output x0 y0 z0 x1 y1 z1 velocity =
       Inr (map (\<lambda>i. Send_absolute_position
                   (fadd x0 (fmul (real i) (fl (fsub x1 x0 / real_of_int n))))
                   (fadd y0 (fmul (real i) (fl (fsub y1 y0 / real_of_int n))))
                   (fadd z0 (fmul (real i) (fl (fsub z1 z0 / real_of_int n)))) velocity)
              [0..<nat n])"
  proof (cases "n = 0")
    case True
    then show ?thesis
      using send_abs_pos_w_output_value [OF ns] by simp
  next
    case False
    then show ?thesis
      using send_abs_pos_w_output_value [OF ns] by (simp add: segment_delta_def)
  qed
  have none: "send_abs_pos_w_output x0 y0 z0 x1 y1 z1 velocity = Inr []"
    if "x0 = x1 \<and> y0 = y1 \<and> z0 = z1"
    using same [OF that] out by simp
  show ?thesis
    unfolding Let_def n_def [symmetric] using r ns out same none by blast
qed

theorem planner_segments_witness:
  "num_segments 0 0 0 0 0 (fl (23 / 100)) 1 = Inr 5 \<and>
   send_abs_pos_w_output 0 0 0 0 0 (fl (23 / 100)) 1 =
     Inr [Send_absolute_position 0 0 0 1,
          Send_absolute_position 0 0 (3314649325744685 / 2 ^ 56) 1,
          Send_absolute_position 0 0 (3314649325744685 / 2 ^ 55) 1,
          Send_absolute_position 0 0 (1242993497154257 / 2 ^ 53) 1,
          Send_absolute_position 0 0 (3314649325744685 / 2 ^ 54) 1] \<and>
   send_abs_pos_w_output 0 0 1 0 0 1 (1 / 2) = Inr []"
proof -
  let ?n = "py_round (fl (fl (r_total 0 0 0 0 0 (fl (23 / 100)) / 1) / fl (5 / 100)))"
  have v: "(1 :: real) \<noteq> 0" "(1 / 2 :: real) \<noteq> 0" by simp_all
  have l: "[0..<5] = [0, 1, 2, 3, 4::nat]"
    by (simp add: eval_nat_numeral upt_rec)
  note t = planner_segments [OF v(1), of 0 0 0 0 0 "fl (23 / 100)", unfolded Let_def]
  from t have "num_segments 0 0 0 0 0 (fl (23 / 100)) 1 = Inr ?n"
    by blast
  with num_segments_z_23 have n: "?n = 5"
    by simp
  from t have "send_abs_pos_w_output 0 0 0 0 0 (fl (23 / 100)) 1 =
       Inr (map (\<lambda>i. Send_absolute_position
                   (fadd 0 (fmul (real i) (fl (fsub 0 0 / real_of_int ?n))))
                   (fadd 0 (fmul (real i) (fl (fsub 0 0 / real_of_int ?n))))
                   (fadd 0 (fmul (real i) (fl (fsub (fl (23 / 100)) 0 / real_of_int ?n)))) 1)
              [0..<nat ?n])"
    by blast
  then have a: "send_abs_pos_w_output 0 0 0 0 0 (fl (23 / 100)) 1 =
     Inr [Send_absolute_position 0 0 0 1,
          Send_absolute_position 0 0 (3314649325744685 / 2 ^ 56) 1,
          Send_absolute_position 0 0 (3314649325744685 / 2 ^ 55) 1,
          Send_absolute_position 0 0 (1242993497154257 / 2 ^ 53) 1,
          Send_absolute_position 0 0 (3314649325744685 / 2 ^ 54) 1]"
    unfolding n by (simp add: l fadd_def fmul_def fsub_def fl_zero planner_values_23)
  from planner_segments [OF v(2), of 0 0 1 0 0 1, unfolded Let_def]
  have b: "send_abs_pos_w_output 0 0 1 0 0 1 (1 / 2) = Inr []"
    by blast
  show ?thesis using num_segments_z_23 a b by blast
qed

text \<open>
  \<^bold>\<open>C6.\<close> The specification says that with a segment count of 0 and a displacement that is not
  zero the target is sent as one command. The loop over the empty range sends nothing.
\<close>

theorem planner_zero_count_counterexample:
  "send_abs_pos_w_output 0 0 1 0 (1 / 100) 1 (1 / 2) \<noteq>
     Inr [Send_absolute_position 0 (1 / 100) 1 (1 / 2)]"
  using send_abs_pos_w_output_value [OF num_segments_y_cm] by simp

text \<open>
  \<^bold>\<open>C6, as the code has it.\<close> When the segment count is 0 (or negative, for a negative
  speed), \<^verbatim>\<open>send_abs_pos_w_output\<close> sends no command at all: no intermediate position and
  not the target.
\<close>

theorem planner_zero_count_sends_nothing:
  assumes "num_segments x0 y0 z0 x1 y1 z1 velocity = Inr n" and "n \<le> 0"
  shows "send_abs_pos_w_output x0 y0 z0 x1 y1 z1 velocity = Inr []"
  using assms by (simp add: send_abs_pos_w_output_def)

theorem planner_zero_count_sends_nothing_witness:
  "num_segments 0 0 1 0 (1 / 100) 1 (1 / 2) = Inr 0 \<and>
   send_abs_pos_w_output 0 0 1 0 (1 / 100) 1 (1 / 2) = Inr []"
proof -
  have n0: "num_segments 0 0 1 0 (1 / 100) 1 (1 / 2) = Inr 0"
    by (rule num_segments_y_cm)
  show ?thesis
    using n0 planner_zero_count_sends_nothing [OF n0] by simp
qed

section \<open>Verified move\<close>

lemma verif_loop_done:
  "te \<and> mc \<Longrightarrow>
   verif_loop st x0 y0 z0 x1 y1 z1 vel md c te mc it tr obs = Some (it, tr)"
  by (cases obs) auto

text \<open>
  While the loop condition holds, the loop runs through the observations up to the first
  one at which both exit conditions hold, sending the target once per observation.
\<close>

lemma verif_loop_run:
  "\<not> (te \<and> mc) \<Longrightarrow>
   verif_loop st x0 y0 z0 x1 y1 z1 vel md c te mc it tr obs =
     (if \<exists>ob \<in> set obs. both_hold st x0 y0 z0 x1 y1 z1 md c ob
      then Some (it + length (takeWhile (\<lambda>ob. \<not> both_hold st x0 y0 z0 x1 y1 z1 md c ob) obs) + 1,
                 tr @ replicate
                   (length (takeWhile (\<lambda>ob. \<not> both_hold st x0 y0 z0 x1 y1 z1 md c ob) obs) + 1)
                   (Send_absolute_position x1 y1 z1 vel))
      else None)"
proof (induction obs arbitrary: te mc it tr)
  case Nil
  then show ?case by auto
next
  case (Cons ob rest)
  obtain p now where ob: "ob = (p, now)" by (cases ob)
  show ?case
  proof (cases "both_hold st x0 y0 z0 x1 y1 z1 md c ob")
    case True
    then have "time_expired st md now \<and> movement_complete c x0 y0 z0 x1 y1 z1 p"
      by (simp add: both_hold_def ob)
    from verif_loop_done [OF this] True Cons.prems show ?thesis
      by (auto simp: ob)
  next
    case False
    then have n: "\<not> (time_expired st md now \<and> movement_complete c x0 y0 z0 x1 y1 z1 p)"
      by (simp add: both_hold_def ob)
    from Cons.IH [OF n, of "it + 1" "tr @ [Send_absolute_position x1 y1 z1 vel]"]
      False Cons.prems
    show ?thesis
      by (auto simp: ob replicate_append_same)
  qed
qed

lemma send_abs_pos_verif_value:
  "send_abs_pos_verif st x0 y0 z0 x1 y1 z1 vel md c obs =
     (if \<exists>ob \<in> set obs. both_hold st x0 y0 z0 x1 y1 z1 md c ob
      then Some (length (takeWhile (\<lambda>ob. \<not> both_hold st x0 y0 z0 x1 y1 z1 md c ob) obs) + 1,
                 replicate
                   (length (takeWhile (\<lambda>ob. \<not> both_hold st x0 y0 z0 x1 y1 z1 md c ob) obs) + 1)
                   (Send_absolute_position x1 y1 z1 vel))
      else None)"
  unfolding send_abs_pos_verif_def
  using verif_loop_run [of False False st x0 y0 z0 x1 y1 z1 vel md c 0 "[]" obs] by simp

lemma first_hit:
  assumes "\<exists>ob \<in> set obs. P ob"
  shows "length (takeWhile (\<lambda>ob. \<not> P ob) obs) < length obs"
    and "P (obs ! length (takeWhile (\<lambda>ob. \<not> P ob) obs))"
    and "\<forall>i < length (takeWhile (\<lambda>ob. \<not> P ob) obs). \<not> P (obs ! i)"
proof -
  show l: "length (takeWhile (\<lambda>ob. \<not> P ob) obs) < length obs"
  proof (rule ccontr)
    assume "\<not> length (takeWhile (\<lambda>ob. \<not> P ob) obs) < length obs"
    with length_takeWhile_le [of "\<lambda>ob. \<not> P ob" obs]
    have "length (takeWhile (\<lambda>ob. \<not> P ob) obs) = length obs" by simp
    with takeWhile_eq_take [of "\<lambda>ob. \<not> P ob" obs]
    have "takeWhile (\<lambda>ob. \<not> P ob) obs = obs" by simp
    then have "\<forall>ob \<in> set obs. \<not> P ob" by (simp add: takeWhile_eq_all_conv)
    with assms show False by blast
  qed
  show "P (obs ! length (takeWhile (\<lambda>ob. \<not> P ob) obs))"
    using nth_length_takeWhile [OF l] by simp
  show "\<forall>i < length (takeWhile (\<lambda>ob. \<not> P ob) obs). \<not> P (obs ! i)"
  proof (intro allI impI)
    fix i assume i: "i < length (takeWhile (\<lambda>ob. \<not> P ob) obs)"
    then have "takeWhile (\<lambda>ob. \<not> P ob) obs ! i \<in> set (takeWhile (\<lambda>ob. \<not> P ob) obs)"
      by simp
    then have "\<not> P (takeWhile (\<lambda>ob. \<not> P ob) obs ! i)"
      by (auto dest: set_takeWhileD)
    then show "\<not> P (obs ! i)"
      using takeWhile_nth [OF i] by simp
  qed
qed

lemma both_hold_explicit:
  "both_hold st x0 y0 z0 x1 y1 z1 md c ob =
     (md \<le> fsub (snd (ob)) st \<and>
        fmul c \<bar>fsub x1 x0\<bar> \<le> \<bar>fsub (pos_x (fst (ob))) x0\<bar> \<and>
        fmul c \<bar>fsub y1 y0\<bar> \<le> \<bar>fsub (pos_y (fst (ob))) y0\<bar> \<and>
        fmul c \<bar>fsub z1 z0\<bar> \<le> \<bar>fsub (pos_z (fst (ob))) z0\<bar>)"
  by (cases ob; cases "fst ob") (auto simp: both_hold_def time_expired_def)

text \<open>The values of the double operations in a verified move from (0, 0, 1) to (1, 2, 2).\<close>

lemma verif_values:
  shows "fl (1 / 2) = 1 / 2"
    and "fl (1 / 8) = 1 / 8"
    and "fl 1 = 1"
    and "fl (3 / 4) = 3 / 4"
    and "fl (7 / 8) = 7 / 8"
    and "fl (7 / 4) = 7 / 4"
    and "fl 2 = 2"
    and "fl (3 / 2) = 3 / 2"
    and "fl (5 / 2) = 5 / 2"
    and "fl 3 = 3"
    and "fl 4 = 4"
proof -
  have "fl (1 / 2) = of_int 4503599627370496 * 2 powi (- 1 - 52)"
    by (rule fl_eval) (simp_all add: py_round_def power_int_minus)
  then show "fl (1 / 2) = 1 / 2"
    by (simp add: power_int_minus)
  have "fl (1 / 8) = of_int 4503599627370496 * 2 powi (- 3 - 52)"
    by (rule fl_eval) (simp_all add: py_round_def power_int_minus)
  then show "fl (1 / 8) = 1 / 8"
    by (simp add: power_int_minus)
  have "fl 1 = of_int 4503599627370496 * 2 powi (0 - 52)"
    by (rule fl_eval) (simp_all add: py_round_def power_int_minus)
  then show "fl 1 = 1"
    by (simp add: power_int_minus)
  have "fl (3 / 4) = of_int 6755399441055744 * 2 powi (- 1 - 52)"
    by (rule fl_eval) (simp_all add: py_round_def power_int_minus)
  then show "fl (3 / 4) = 3 / 4"
    by (simp add: power_int_minus)
  have "fl (7 / 8) = of_int 7881299347898368 * 2 powi (- 1 - 52)"
    by (rule fl_eval) (simp_all add: py_round_def power_int_minus)
  then show "fl (7 / 8) = 7 / 8"
    by (simp add: power_int_minus)
  have "fl (7 / 4) = of_int 7881299347898368 * 2 powi (0 - 52)"
    by (rule fl_eval) (simp_all add: py_round_def power_int_minus)
  then show "fl (7 / 4) = 7 / 4"
    by (simp add: power_int_minus)
  have "fl 2 = of_int 4503599627370496 * 2 powi (1 - 52)"
    by (rule fl_eval) (simp_all add: py_round_def power_int_minus)
  then show "fl 2 = 2"
    by (simp add: power_int_minus)
  have "fl (3 / 2) = of_int 6755399441055744 * 2 powi (0 - 52)"
    by (rule fl_eval) (simp_all add: py_round_def power_int_minus)
  then show "fl (3 / 2) = 3 / 2"
    by (simp add: power_int_minus)
  have "fl (5 / 2) = of_int 5629499534213120 * 2 powi (1 - 52)"
    by (rule fl_eval) (simp_all add: py_round_def power_int_minus)
  then show "fl (5 / 2) = 5 / 2"
    by (simp add: power_int_minus)
  have "fl 3 = of_int 6755399441055744 * 2 powi (1 - 52)"
    by (rule fl_eval) (simp_all add: py_round_def power_int_minus)
  then show "fl 3 = 3"
    by (simp add: power_int_minus)
  have "fl 4 = of_int 4503599627370496 * 2 powi (2 - 52)"
    by (rule fl_eval) (simp_all add: py_round_def power_int_minus)
  then show "fl 4 = 4"
    by (simp add: power_int_minus)
qed

text \<open>
  \<^bold>\<open>C1.\<close> \<^verbatim>\<open>send_abs_pos_verif\<close> returns at pass \<open>n\<close> only if at the observation of that
  pass the time elapsed since entry, \<^verbatim>\<open>now - start_time\<close>, is at least \<^verbatim>\<open>min_delay\<close> and, on
  each of the three axes, \<^verbatim>\<open>fabs(current - start) >= complete*fabs(target - start)\<close>; at
  every earlier pass one of the four inequalities fails; and each pass, also the last,
  has sent the target once and read telemetry once. It does return when some
  observation satisfies the four, and it does not while none does. An axis on which
  start and target agree imposes no condition.
\<close>

theorem send_abs_pos_verif_returns_when_both_hold:
  "(send_abs_pos_verif st x0 y0 z0 x1 y1 z1 vel md c obs = Some (n, tr) \<longrightarrow>
      0 < n \<and> n \<le> length obs \<and>
      (md \<le> fsub (snd (obs ! (n - 1))) st \<and>
        fmul c \<bar>fsub x1 x0\<bar> \<le> \<bar>fsub (pos_x (fst (obs ! (n - 1)))) x0\<bar> \<and>
        fmul c \<bar>fsub y1 y0\<bar> \<le> \<bar>fsub (pos_y (fst (obs ! (n - 1)))) y0\<bar> \<and>
        fmul c \<bar>fsub z1 z0\<bar> \<le> \<bar>fsub (pos_z (fst (obs ! (n - 1)))) z0\<bar>) \<and>
      (\<forall>i < n - 1. \<not> (md \<le> fsub (snd (obs ! i)) st \<and>
        fmul c \<bar>fsub x1 x0\<bar> \<le> \<bar>fsub (pos_x (fst (obs ! i))) x0\<bar> \<and>
        fmul c \<bar>fsub y1 y0\<bar> \<le> \<bar>fsub (pos_y (fst (obs ! i))) y0\<bar> \<and>
        fmul c \<bar>fsub z1 z0\<bar> \<le> \<bar>fsub (pos_z (fst (obs ! i))) z0\<bar>)) \<and>
      tr = replicate n (Send_absolute_position x1 y1 z1 vel)) \<and>
   ((\<exists>i < length obs. md \<le> fsub (snd (obs ! i)) st \<and>
        fmul c \<bar>fsub x1 x0\<bar> \<le> \<bar>fsub (pos_x (fst (obs ! i))) x0\<bar> \<and>
        fmul c \<bar>fsub y1 y0\<bar> \<le> \<bar>fsub (pos_y (fst (obs ! i))) y0\<bar> \<and>
        fmul c \<bar>fsub z1 z0\<bar> \<le> \<bar>fsub (pos_z (fst (obs ! i))) z0\<bar>) \<longleftrightarrow>
      (\<exists>r. send_abs_pos_verif st x0 y0 z0 x1 y1 z1 vel md c obs = Some r)) \<and>
   movement_complete c x0 y0 z0 x0 y1 z1 (t, x, y, z) =
     (\<bar>fsub y y0\<bar> \<ge> fmul c \<bar>fsub y1 y0\<bar> \<and> \<bar>fsub z z0\<bar> \<ge> fmul c \<bar>fsub z1 z0\<bar>) \<and>
   movement_complete c x0 y0 z0 x1 y0 z1 (t, x, y, z) =
     (\<bar>fsub x x0\<bar> \<ge> fmul c \<bar>fsub x1 x0\<bar> \<and> \<bar>fsub z z0\<bar> \<ge> fmul c \<bar>fsub z1 z0\<bar>) \<and>
   movement_complete c x0 y0 z0 x1 y1 z0 (t, x, y, z) =
     (\<bar>fsub x x0\<bar> \<ge> fmul c \<bar>fsub x1 x0\<bar> \<and> \<bar>fsub y y0\<bar> \<ge> fmul c \<bar>fsub y1 y0\<bar>)"
proof -
  let ?P = "both_hold st x0 y0 z0 x1 y1 z1 md c"
  let ?k = "length (takeWhile (\<lambda>ob. \<not> ?P ob) obs)"
  have ex: "(\<exists>i < length obs. ?P (obs ! i)) = (\<exists>ob \<in> set obs. ?P ob)"
    by (metis in_set_conv_nth)
  have a: "0 < n \<and> n \<le> length obs \<and> ?P (obs ! (n - 1)) \<and>
           (\<forall>i < n - 1. \<not> ?P (obs ! i)) \<and>
           tr = replicate n (Send_absolute_position x1 y1 z1 vel)"
    if r: "send_abs_pos_verif st x0 y0 z0 x1 y1 z1 vel md c obs = Some (n, tr)"
  proof -
    from r have e: "\<exists>ob \<in> set obs. ?P ob"
      by (simp add: send_abs_pos_verif_value split: if_splits)
    from r e have "Some (n, tr) =
        Some (?k + 1, replicate (?k + 1) (Send_absolute_position x1 y1 z1 vel))"
      by (simp only: send_abs_pos_verif_value if_True)
    then have n: "n = ?k + 1"
      and tr: "tr = replicate (?k + 1) (Send_absolute_position x1 y1 z1 vel)"
      by blast+
    from first_hit [of obs ?P, OF e] n tr show ?thesis by simp
  qed
  have b: "(\<exists>i < length obs. ?P (obs ! i)) \<longleftrightarrow>
           (\<exists>r. send_abs_pos_verif st x0 y0 z0 x1 y1 z1 vel md c obs = Some r)"
    unfolding ex by (simp add: send_abs_pos_verif_value)
  have z: "fmul c \<bar>fsub a a\<bar> \<le> \<bar>fsub b a\<bar>" for a b
    by (simp add: fsub_def fmul_def fl_zero)
  show ?thesis
    using a b z unfolding both_hold_explicit by simp
qed

theorem send_abs_pos_verif_returns_when_both_hold_witness:
  "send_abs_pos_verif 100 0 0 1 1 2 2 (1 / 2) 2 (3 / 4)
      [((1 / 2, 1 / 8, 1 / 4, 9 / 8), 100 + 1 / 2),
       ((1, 7 / 8, 7 / 4, 15 / 8), 101),
       ((5 / 2, 7 / 8, 7 / 4, 3 / 2), 102 + 1 / 2),
       ((3, 1, 2, 2), 103),
       ((4, 1, 2, 2), 104)] =
     Some (4, [Send_absolute_position 1 2 2 (1 / 2), Send_absolute_position 1 2 2 (1 / 2),
               Send_absolute_position 1 2 2 (1 / 2), Send_absolute_position 1 2 2 (1 / 2)]) \<and>
   (2 \<le> fsub 103 100 \<and>
    fmul (3 / 4) \<bar>fsub 1 0\<bar> \<le> \<bar>fsub 1 0\<bar> \<and>
    fmul (3 / 4) \<bar>fsub 2 0\<bar> \<le> \<bar>fsub 2 0\<bar> \<and>
    fmul (3 / 4) \<bar>fsub 2 1\<bar> \<le> \<bar>fsub 2 1\<bar>) \<and>
   \<not> 2 \<le> fsub (100 + 1 / 2) 100 \<and>
   \<not> fmul (3 / 4) \<bar>fsub 1 0\<bar> \<le> \<bar>fsub (1 / 8) 0\<bar> \<and>
   \<not> 2 \<le> fsub 101 100 \<and>
   (fmul (3 / 4) \<bar>fsub 1 0\<bar> \<le> \<bar>fsub (7 / 8) 0\<bar> \<and>
    fmul (3 / 4) \<bar>fsub 2 0\<bar> \<le> \<bar>fsub (7 / 4) 0\<bar> \<and>
    fmul (3 / 4) \<bar>fsub 2 1\<bar> \<le> \<bar>fsub (15 / 8) 1\<bar>) \<and>
   2 \<le> fsub (102 + 1 / 2) 100 \<and>
   \<not> fmul (3 / 4) \<bar>fsub 2 1\<bar> \<le> \<bar>fsub (3 / 2) 1\<bar>"
proof -
  let ?obs = "[((1 / 2, 1 / 8, 1 / 4, 9 / 8), 100 + 1 / 2),
       ((1, 7 / 8, 7 / 4, 15 / 8), 101),
       ((5 / 2, 7 / 8, 7 / 4, 3 / 2), 102 + 1 / 2),
       ((3, 1, 2, 2), 103),
       ((4, 1, 2, 2), 104)] :: observation list"
  have r: "send_abs_pos_verif 100 0 0 1 1 2 2 (1 / 2) 2 (3 / 4) ?obs =
     Some (4, [Send_absolute_position 1 2 2 (1 / 2), Send_absolute_position 1 2 2 (1 / 2),
               Send_absolute_position 1 2 2 (1 / 2), Send_absolute_position 1 2 2 (1 / 2)])"
    by (simp add: send_abs_pos_verif_def time_expired_def fsub_def fmul_def verif_values)
  have o: "?obs ! (4 - 1) = ((3, 1, 2, 2), 103)"
    by simp
  have "2 \<le> fsub (snd (?obs ! (4 - 1))) 100 \<and>
        fmul (3 / 4) \<bar>fsub 1 0\<bar> \<le> \<bar>fsub (pos_x (fst (?obs ! (4 - 1)))) 0\<bar> \<and>
        fmul (3 / 4) \<bar>fsub 2 0\<bar> \<le> \<bar>fsub (pos_y (fst (?obs ! (4 - 1)))) 0\<bar> \<and>
        fmul (3 / 4) \<bar>fsub 2 1\<bar> \<le> \<bar>fsub (pos_z (fst (?obs ! (4 - 1)))) 1\<bar>"
    using r send_abs_pos_verif_returns_when_both_hold
      [of 100 0 0 1 1 2 2 "1 / 2" 2 "3 / 4" ?obs 4 _ 0 0 0 0]
    by blast
  then have last: "2 \<le> fsub 103 100 \<and>
    fmul (3 / 4) \<bar>fsub 1 0\<bar> \<le> \<bar>fsub 1 0\<bar> \<and>
    fmul (3 / 4) \<bar>fsub 2 0\<bar> \<le> \<bar>fsub 2 0\<bar> \<and>
    fmul (3 / 4) \<bar>fsub 2 1\<bar> \<le> \<bar>fsub 2 1\<bar>"
    unfolding o by simp
  have rest: "\<not> 2 \<le> fsub (100 + 1 / 2) 100"
    "\<not> fmul (3 / 4) \<bar>fsub 1 0\<bar> \<le> \<bar>fsub (1 / 8) 0\<bar>"
    "\<not> 2 \<le> fsub 101 100"
    "fmul (3 / 4) \<bar>fsub 1 0\<bar> \<le> \<bar>fsub (7 / 8) 0\<bar> \<and>
     fmul (3 / 4) \<bar>fsub 2 0\<bar> \<le> \<bar>fsub (7 / 4) 0\<bar> \<and>
     fmul (3 / 4) \<bar>fsub 2 1\<bar> \<le> \<bar>fsub (15 / 8) 1\<bar>"
    "2 \<le> fsub (102 + 1 / 2) 100"
    "\<not> fmul (3 / 4) \<bar>fsub 2 1\<bar> \<le> \<bar>fsub (3 / 2) 1\<bar>"
    by (simp_all add: fsub_def fmul_def verif_values)
  show ?thesis
    using r last rest by blast
qed

section \<open>Pattern generators\<close>

lemma clamp_is_min:
  "(if del_z < fmul 0.75 z0 then del_z else fmul 0.75 z0) = min del_z (fmul 0.75 z0)"
  by (simp add: min_def)

text \<open>
  The doubles met in a vertical sweep from the height 0.4: \<open>0.75 * 0.4\<close>, the heights
  above and below, the double 0.3 and \<open>0.4 + 0.3\<close>.
\<close>

lemma sweep_values:
  shows "fl (2 / 5) = 3602879701896397 / 9007199254740992"
    and "fl (10808639105689191 / 36028797018963968) = 1351079888211149 / 4503599627370496"
    and "fl (6305039478318695 / 9007199254740992) = 6305039478318695 / 9007199254740992"
    and "fl (900719925474099 / 9007199254740992) = 900719925474099 / 9007199254740992"
    and "fl (3 / 10) = 5404319552844595 / 18014398509481984"
    and "fl (12610078956637389 / 18014398509481984) = 3152519739159347 / 4503599627370496"
proof -
  have "fl (2 / 5) = of_int 7205759403792794 * 2 powi (- 2 - 52)"
    by (rule fl_eval) (simp_all add: py_round_def power_int_minus)
  then show "fl (2 / 5) = 3602879701896397 / 9007199254740992"
    by (simp add: power_int_minus)
  have "fl (10808639105689191 / 36028797018963968) = of_int 5404319552844596 * 2 powi (- 2 - 52)"
    by (rule fl_eval) (simp_all add: py_round_def power_int_minus)
  then show "fl (10808639105689191 / 36028797018963968) = 1351079888211149 / 4503599627370496"
    by (simp add: power_int_minus)
  have "fl (6305039478318695 / 9007199254740992) = of_int 6305039478318695 * 2 powi (- 1 - 52)"
    by (rule fl_eval) (simp_all add: py_round_def power_int_minus)
  then show "fl (6305039478318695 / 9007199254740992) = 6305039478318695 / 9007199254740992"
    by (simp add: power_int_minus)
  have "fl (900719925474099 / 9007199254740992) = of_int 7205759403792792 * 2 powi (- 4 - 52)"
    by (rule fl_eval) (simp_all add: py_round_def power_int_minus)
  then show "fl (900719925474099 / 9007199254740992) = 900719925474099 / 9007199254740992"
    by (simp add: power_int_minus)
  have "fl (3 / 10) = of_int 5404319552844595 * 2 powi (- 2 - 52)"
    by (rule fl_eval) (simp_all add: py_round_def power_int_minus)
  then show "fl (3 / 10) = 5404319552844595 / 18014398509481984"
    by (simp add: power_int_minus)
  have "fl (12610078956637389 / 18014398509481984) = of_int 6305039478318694 * 2 powi (- 1 - 52)"
    by (rule fl_eval) (simp_all add: py_round_def power_int_minus)
  then show "fl (12610078956637389 / 18014398509481984) = 3152519739159347 / 4503599627370496"
    by (simp add: power_int_minus)
qed

text \<open>
  \<^bold>\<open>C7.\<close> The specification gives, for \<open>z0 = 0.4\<close> and \<open>del_z = 1.0\<close>, an effective delta
  of 0.3. The delta used is the product \<open>0.75 * 0.4\<close> of doubles, which is
  0.30000000000000004: one unit in the last place above the double 0.3, and not the
  number 3/10 either; the first leg goes to 0.7000000000000001 and not to
  \<open>0.4 + 0.3 = 0.7\<close>.
\<close>

theorem vertical_sweep_delta_counterexample:
  "min 1 (fmul 0.75 (fl (4 / 10))) \<noteq> fl (3 / 10) \<and>
   min 1 (fmul 0.75 (fl (4 / 10))) - fl (3 / 10) = 1 / 2 ^ 54 \<and>
   min 1 (fmul 0.75 (fl (4 / 10))) \<noteq> 3 / 10 \<and>
   move_z_simple (0, 0, 0, fl (4 / 10)) 1 (1 / 5) 2 1 ! 0 \<noteq>
     Send_abs_pos_verif 0 0 (fl (4 / 10)) 0 0 (fadd (fl (4 / 10)) (fl (3 / 10))) (1 / 5) 2"
  by (simp add: fmul_def fadd_def fsub_def sweep_values Let_def)

text \<open>
  \<^bold>\<open>C7, as the code has it.\<close> The vertical legs of \<^verbatim>\<open>move_z_simple\<close> and of
  \<^verbatim>\<open>move_yz_simple\<close> go to \<open>z0 + d\<close>, back to \<open>z0\<close>, to \<open>z0 - d\<close> and back to \<open>z0\<close>, where
  \<open>z0\<close> is the height read at entry and \<open>d = min(del_z, 0.75 * z0)\<close>, product, sum and
  difference being those of doubles. For \<open>z0 = 0.4\<close> and \<open>del_z = 1.0\<close>, \<open>d\<close> is
  0.30000000000000004 (1351079888211149 / 2^52) and the legs go to 0.7000000000000001
  (6305039478318695 / 2^53) and to 0.09999999999999998 (900719925474099 / 2^53).
\<close>

theorem vertical_sweep_clamp:
  "move_z_simple (t, x0, y0, z0) del_z vel delay repeats =
     concat (replicate (nat repeats)
       [Send_abs_pos_verif x0 y0 z0 x0 y0 (fadd z0 (min del_z (fmul 0.75 z0))) vel delay,
        Hover_w_del 2 1,
        Send_abs_pos_verif x0 y0 (fadd z0 (min del_z (fmul 0.75 z0))) x0 y0 z0 vel delay,
        Hover_w_del 2 1,
        Send_abs_pos_verif x0 y0 z0 x0 y0 (fsub z0 (min del_z (fmul 0.75 z0))) vel delay,
        Hover_w_del 2 1,
        Send_abs_pos_verif x0 y0 (fsub z0 (min del_z (fmul 0.75 z0))) x0 y0 z0 vel delay]) \<and>
   move_yz_simple (t, x0, y0, z0) del_y del_z vel delay repeats =
     concat (replicate (nat repeats)
       [Send_abs_pos_verif x0 y0 z0 x0 (fadd y0 del_y) z0 vel delay,
        Hover_w_del 2 1,
        Send_abs_pos_verif x0 (fadd y0 del_y) z0 x0 y0 z0 vel delay,
        Hover_w_del 2 1,
        Send_abs_pos_verif x0 y0 z0 x0 (fsub y0 del_y) z0 vel delay,
        Hover_w_del 2 1,
        Send_abs_pos_verif x0 (fsub y0 del_y) z0 x0 y0 z0 vel delay,
        Hover_w_del 2 1,
        Send_abs_pos_verif x0 y0 z0 x0 y0 (fadd z0 (min del_z (fmul 0.75 z0))) vel delay,
        Hover_w_del 2 1,
        Send_abs_pos_verif x0 y0 (fadd z0 (min del_z (fmul 0.75 z0))) x0 y0 z0 vel delay,
        Hover_w_del 2 1,
        Send_abs_pos_verif x0 y0 z0 x0 y0 (fsub z0 (min del_z (fmul 0.75 z0))) vel delay,
        Hover_w_del 2 1,
        Send_abs_pos_verif x0 y0 (fsub z0 (min del_z (fmul 0.75 z0))) x0 y0 z0 vel delay]) \<and>
   min 1 (fmul 0.75 (fl (4 / 10))) = 1351079888211149 / 2 ^ 52 \<and>
   move_z_simple (t, x0, y0, fl (4 / 10)) 1 vel delay 1 =
       [Send_abs_pos_verif x0 y0 (fl (4 / 10)) x0 y0 (6305039478318695 / 2 ^ 53) vel delay,
        Hover_w_del 2 1,
        Send_abs_pos_verif x0 y0 (6305039478318695 / 2 ^ 53) x0 y0 (fl (4 / 10)) vel delay,
        Hover_w_del 2 1,
        Send_abs_pos_verif x0 y0 (fl (4 / 10)) x0 y0 (900719925474099 / 2 ^ 53) vel delay,
        Hover_w_del 2 1,
        Send_abs_pos_verif x0 y0 (900719925474099 / 2 ^ 53) x0 y0 (fl (4 / 10)) vel delay]"
proof -
  have z: "move_z_simple (t, x0, y0, z0) del_z vel delay repeats =
     concat (replicate (nat repeats)
       [Send_abs_pos_verif x0 y0 z0 x0 y0 (fadd z0 (min del_z (fmul 0.75 z0))) vel delay,
        Hover_w_del 2 1,
        Send_abs_pos_verif x0 y0 (fadd z0 (min del_z (fmul 0.75 z0))) x0 y0 z0 vel delay,
        Hover_w_del 2 1,
        Send_abs_pos_verif x0 y0 z0 x0 y0 (fsub z0 (min del_z (fmul 0.75 z0))) vel delay,
        Hover_w_del 2 1,
        Send_abs_pos_verif x0 y0 (fsub z0 (min del_z (fmul 0.75 z0))) x0 y0 z0 vel delay])"
    for z0 del_z repeats
    unfolding move_z_simple.simps clamp_is_min by (simp add: Let_def)
  have yz: "move_yz_simple (t, x0, y0, z0) del_y del_z vel delay repeats =
     concat (replicate (nat repeats)
       [Send_abs_pos_verif x0 y0 z0 x0 (fadd y0 del_y) z0 vel delay,
        Hover_w_del 2 1,
        Send_abs_pos_verif x0 (fadd y0 del_y) z0 x0 y0 z0 vel delay,
        Hover_w_del 2 1,
        Send_abs_pos_verif x0 y0 z0 x0 (fsub y0 del_y) z0 vel delay,
        Hover_w_del 2 1,
        Send_abs_pos_verif x0 (fsub y0 del_y) z0 x0 y0 z0 vel delay,
        Hover_w_del 2 1,
        Send_abs_pos_verif x0 y0 z0 x0 y0 (fadd z0 (min del_z (fmul 0.75 z0))) vel delay,
        Hover_w_del 2 1,
        Send_abs_pos_verif x0 y0 (fadd z0 (min del_z (fmul 0.75 z0))) x0 y0 z0 vel delay,
        Hover_w_del 2 1,
        Send_abs_pos_verif x0 y0 z0 x0 y0 (fsub z0 (min del_z (fmul 0.75 z0))) vel delay,
        Hover_w_del 2 1,
        Send_abs_pos_verif x0 y0 (fsub z0 (min del_z (fmul 0.75 z0))) x0 y0 z0 vel delay])"
    unfolding move_yz_simple.simps clamp_is_min by (simp add: Let_def)
  have m: "min 1 (fmul 0.75 (fl (4 / 10))) = 1351079888211149 / 2 ^ 52"
    by (simp add: fmul_def sweep_values)
  have one: "move_z_simple (t, x0, y0, fl (4 / 10)) 1 vel delay 1 =
       [Send_abs_pos_verif x0 y0 (fl (4 / 10)) x0 y0 (6305039478318695 / 2 ^ 53) vel delay,
        Hover_w_del 2 1,
        Send_abs_pos_verif x0 y0 (6305039478318695 / 2 ^ 53) x0 y0 (fl (4 / 10)) vel delay,
        Hover_w_del 2 1,
        Send_abs_pos_verif x0 y0 (fl (4 / 10)) x0 y0 (900719925474099 / 2 ^ 53) vel delay,
        Hover_w_del 2 1,
        Send_abs_pos_verif x0 y0 (900719925474099 / 2 ^ 53) x0 y0 (fl (4 / 10)) vel delay]"
    unfolding z [of "fl (4 / 10)" 1 1] m by (simp add: fadd_def fsub_def sweep_values)
  show ?thesis
    using z yz m one by blast
qed











lemma move_random_xyz_one:
  "move_random_xyz p0 box vel delay 1 tel rnd =
     calibration_legs p0 box vel delay @ xyz_segment p0 box vel delay (tel 0) (rnd 0)"
  by (simp add: move_random_xyz_def)

lemma move_random_limits_one:
  "move_random_limits p0 box vel delay 1 tel rnd =
     calibration_legs p0 box vel delay @ limits_segment p0 box vel delay (tel 0) (rnd 0)"
  by (simp add: move_random_limits_def)






section \<open>The random walks and the box\<close>

text \<open>
  \<^bold>\<open>C2.\<close> The docstring of \<^verbatim>\<open>move_random_xyz\<close> says that the vehicle should not move outside
  the box around the position at entry, and the sign inversion is there for that. It does
  not achieve it. First conjunct: \<^verbatim>\<open>move_random_xyz\<close> with the box and the speed of
  \<^verbatim>\<open>main\<close> (\<open>x\<close> within 0.1 m), the vehicle found 0.2 m off along \<open>x\<close> and a draw of
  \<open>(0, 0.5, 0)\<close>: the target commanded is 0.2 m off along \<open>x\<close>. Second conjunct:
  \<^verbatim>\<open>move_random_limits\<close> with the same box (\<open>z\<close> within 0.1 m), the vehicle at the position
  of entry and a draw of radius 0.5 and inclination 0: the displacement 0.5 upwards would
  leave the box, its sign is inverted, and the target commanded is 0.5 m below.
\<close>

theorem random_walk_target_outside_box:
  "move_random_xyz (0, 0, 0, 1) (- (1 / 10), 1 / 10, - (3 / 2), 3 / 2, - (1 / 10), 1 / 10)
      (1 / 2) 2 1 (\<lambda>i. (1, 2 / 10, 0, 1)) (\<lambda>i. (0, 1 / 2, 0)) ! 6 =
     Send_abs_pos_verif (2 / 10) 0 1 (2 / 10) (1 / 2) 1 (1 / 2) 2 \<and>
   \<not> in_box (0, 0, 0, 1) (- (1 / 10), 1 / 10, - (3 / 2), 3 / 2, - (1 / 10), 1 / 10)
      (move_random_xyz (0, 0, 0, 1) (- (1 / 10), 1 / 10, - (3 / 2), 3 / 2, - (1 / 10), 1 / 10)
         (1 / 2) 2 1 (\<lambda>i. (1, 2 / 10, 0, 1)) (\<lambda>i. (0, 1 / 2, 0)) ! 6) \<and>
   move_random_limits (0, 0, 0, 1) (- (1 / 10), 1 / 10, - (3 / 2), 3 / 2, - (1 / 10), 1 / 10)
      (1 / 2) 2 1 (\<lambda>i. (1, 0, 0, 1)) (\<lambda>i. (1 / 2, 0, 0)) ! 6 =
     Send_abs_pos_verif 0 0 1 0 0 (1 / 2) (1 / 2) 2 \<and>
   \<not> in_box (0, 0, 0, 1) (- (1 / 10), 1 / 10, - (3 / 2), 3 / 2, - (1 / 10), 1 / 10)
      (move_random_limits (0, 0, 0, 1) (- (1 / 10), 1 / 10, - (3 / 2), 3 / 2, - (1 / 10), 1 / 10)
         (1 / 2) 2 1 (\<lambda>i. (1, 0, 0, 1)) (\<lambda>i. (1 / 2, 0, 0)) ! 6)"
  by (simp add: move_random_xyz_one move_random_limits_one invert_sign_def Let_def)

lemma invert_sign_inside:
  assumes "a0 + neg \<le> a" and "a \<le> a0 + pos" and "2 * \<bar>d\<bar> \<le> pos - neg"
  shows "neg \<le> a + invert_sign a a0 neg pos d - a0 \<and>
         a + invert_sign a a0 neg pos d - a0 \<le> pos"
  using assms by (auto simp: invert_sign_def)

text \<open>
  \<^bold>\<open>X1.\<close> What the sign inversion does achieve, in one pass of \<^verbatim>\<open>move_random_xyz\<close>: when
  the live position is inside the box on every axis and twice the magnitude drawn is at
  most the width of the box on every axis, the target commanded is inside the box.
\<close>

theorem xyz_segment_inside_box:
  assumes "x_neg \<le> x - x0 \<and> x - x0 \<le> x_pos"
    and "y_neg \<le> y - y0 \<and> y - y0 \<le> y_pos"
    and "z_neg \<le> z - z0 \<and> z - z0 \<le> z_pos"
    and "2 * \<bar>delta_x\<bar> \<le> x_pos - x_neg"
    and "2 * \<bar>delta_y\<bar> \<le> y_pos - y_neg"
    and "2 * \<bar>delta_z\<bar> \<le> z_pos - z_neg"
  shows "list_all (in_box (t0, x0, y0, z0) (x_neg, x_pos, y_neg, y_pos, z_neg, z_pos))
           (xyz_segment (t0, x0, y0, z0) (x_neg, x_pos, y_neg, y_pos, z_neg, z_pos) vel delay
              (t, x, y, z) (delta_x, delta_y, delta_z))"
proof -
  have "neg \<le> a + invert_sign a a0 neg pos d - a0 \<and> a + invert_sign a a0 neg pos d - a0 \<le> pos"
    if "neg \<le> a - a0 \<and> a - a0 \<le> pos" and "2 * \<bar>d\<bar> \<le> pos - neg" for a a0 neg pos d :: real
    using that invert_sign_inside [of a0 neg a pos d] by simp
  with assms show ?thesis
    by (simp add: Let_def)
qed

theorem xyz_segment_inside_box_witness:
  "list_all (in_box (0, 0, 0, 1) (- (1 / 10), 1 / 10, - (3 / 2), 3 / 2, - (1 / 10), 1 / 10))
     (xyz_segment (0, 0, 0, 1) (- (1 / 10), 1 / 10, - (3 / 2), 3 / 2, - (1 / 10), 1 / 10)
        (1 / 2) 2 (1, 0, 1, 1) (0, 1, 0)) \<and>
   xyz_segment (0, 0, 0, 1) (- (1 / 10), 1 / 10, - (3 / 2), 3 / 2, - (1 / 10), 1 / 10)
        (1 / 2) 2 (1, 0, 1, 1) (0, 1, 0) =
     [Send_abs_pos_verif 0 1 1 0 0 1 (1 / 2) 2, Hover_w_del 1 1]"
proof -
  have "list_all (in_box (0, 0, 0, 1) (- (1 / 10), 1 / 10, - (3 / 2), 3 / 2, - (1 / 10), 1 / 10))
     (xyz_segment (0, 0, 0, 1) (- (1 / 10), 1 / 10, - (3 / 2), 3 / 2, - (1 / 10), 1 / 10)
        (1 / 2) 2 (1, 0, 1, 1) (0, 1, 0))"
    by (rule xyz_segment_inside_box) simp_all
  then show ?thesis
    by (simp add: invert_sign_def)
qed

end
